theory Spec2Isabelle
  imports Complex_Main "HOL-Library.Multiset"

begin

section \<open>Vectors\<close>

text \<open>
  \<^verbatim>\<open>Eigen::Vector3d\<close> with the operations the collision code uses. The scalars of the
  source are IEEE doubles; the development idealises them as real numbers (no rounding,
  no infinities). The two places where the source's control flow meets a value that is
  not a real number are written out where they occur: the sentinel
  \<^verbatim>\<open>std::numeric_limits<double>::max()\<close> is the real constant \<open>DBL_MAX\<close>, and the
  quotient \<^verbatim>\<open>0.0 / 0.0\<close> of \<open>findClosestFace\<close> is a value that compares false with everything.
  The unqualified \<^verbatim>\<open>abs\<close> of the source is taken to be the absolute value of a double.
\<close>

datatype vec3 = Vec3 (vx: real) (vy: real) (vz: real)

instantiation vec3 :: "{zero, plus, minus, uminus}"

begin

definition zero_vec3 :: vec3 where
  "zero_vec3 = Vec3 0 0 0"

definition plus_vec3 :: "vec3 \<Rightarrow> vec3 \<Rightarrow> vec3" where
  "plus_vec3 a b = Vec3 (vx a + vx b) (vy a + vy b) (vz a + vz b)"

definition minus_vec3 :: "vec3 \<Rightarrow> vec3 \<Rightarrow> vec3" where
  "minus_vec3 a b = Vec3 (vx a - vx b) (vy a - vy b) (vz a - vz b)"

definition uminus_vec3 :: "vec3 \<Rightarrow> vec3" where
  "uminus_vec3 a = Vec3 (- vx a) (- vy a) (- vz a)"

instance ..

end

definition scale :: "real \<Rightarrow> vec3 \<Rightarrow> vec3" where
  "scale k a = Vec3 (k * vx a) (k * vy a) (k * vz a)"

definition dot :: "vec3 \<Rightarrow> vec3 \<Rightarrow> real" where
  "dot a b = vx a * vx b + vy a * vy b + vz a * vz b"

definition cross :: "vec3 \<Rightarrow> vec3 \<Rightarrow> vec3" where
  "cross a b = Vec3 (vy a * vz b - vz a * vy b)
                    (vz a * vx b - vx a * vz b)
                    (vx a * vy b - vy a * vx b)"

definition squaredNorm :: "vec3 \<Rightarrow> real" where
  "squaredNorm a = dot a a"

definition norm3 :: "vec3 \<Rightarrow> real" where
  "norm3 a = sqrt (squaredNorm a)"

text \<open>Eigen's \<^verbatim>\<open>normalized()\<close> returns a vector of squared norm zero as it is.\<close>

definition normalized :: "vec3 \<Rightarrow> vec3" where
  "normalized a = (if squaredNorm a > 0 then scale (1 / norm3 a) a else a)"

text \<open>\<^verbatim>\<open>std::numeric_limits<double>::max()\<close>, the largest finite double.\<close>

definition DBL_MAX :: real where
  "DBL_MAX = (2 ^ 53 - 1) * 2 ^ 971"

section \<open>Support mapping\<close>

text \<open>
  Modelled from the spec: \<^verbatim>\<open>SupportPoint.h\<close> is not among the sources. The spec gives the
  three fields of a support point, the sources their accessors and the order of the
  constructor's arguments.
\<close>

record SupportPoint =
  minkowski :: vec3
  convexHull1Point :: vec3
  convexHull2Point :: vec3

text \<open>
  \<^verbatim>\<open>GjkAlgorithm::getFurthestPoint\<close>: the loop over the hull carries the running maximum
  and the running candidate.
\<close>

fun furthestFrom :: "real \<Rightarrow> vec3 \<Rightarrow> vec3 list \<Rightarrow> vec3 \<Rightarrow> vec3" where
  "furthestFrom mx maxV [] direction = maxV"
| "furthestFrom mx maxV (v # convex) direction =
     (if dot v direction > mx then furthestFrom (dot v direction) v convex direction
      else furthestFrom mx maxV convex direction)"

definition getFurthestPoint :: "vec3 list \<Rightarrow> vec3 \<Rightarrow> vec3" where
  "getFurthestPoint convex direction = furthestFrom (- DBL_MAX) (Vec3 0 0 0) convex direction"

definition support :: "vec3 list \<Rightarrow> vec3 list \<Rightarrow> vec3 \<Rightarrow> SupportPoint" where
  "support convex1 convex2 direction =
     (let conv1Point = getFurthestPoint convex1 direction;
          conv2Point = getFurthestPoint convex2 (- direction)
      in \<lparr> minkowski = conv1Point - conv2Point,
           convexHull1Point = conv1Point,
           convexHull2Point = conv2Point \<rparr>)"

section \<open>Collision record\<close>

text \<open>
  Modelled from the spec: \<^verbatim>\<open>SpaceObject.h\<close> is not among the sources. Of a space object
  the collision code reads the reference position only.
\<close>

record SpaceObject =
  position :: vec3

text \<open>
  \<^verbatim>\<open>Collision\<close> and \<^verbatim>\<open>CollisionCompareLess\<close>. The two object pointers may be null (the
  default constructor sets both so).
\<close>

record Collision =
  firstObject :: "SpaceObject option"
  secondObject :: "SpaceObject option"
  unitNormal :: vec3
  firstPOC :: vec3
  secondPOC :: vec3
  intersectionVector :: vec3

definition CollisionCompareLess :: "Collision \<Rightarrow> Collision \<Rightarrow> bool" where
  "CollisionCompareLess lhs rhs = (norm3 (intersectionVector lhs) < norm3 (intersectionVector rhs))"

section \<open>Geometry helpers\<close>

text \<open>
  Modelled from the spec: \<^verbatim>\<open>Geometry.h\<close> is not among the sources. The spec decides both
  direction tests by the sign of the dot product: \<open>isSameDirection\<close> is lying in the same
  half-space, the dot product being positive, and \<open>isOppositeDirection\<close>, the test with which
  \<open>intersect\<close> rejects a support point, is the dot product being non-positive, so a zero dot
  product is the opposite direction and not the same one. \<open>getNormalFromPoints\<close> is the
  non-unit plane normal of three points.
\<close>

definition isSameDirection :: "vec3 \<Rightarrow> vec3 \<Rightarrow> bool" where
  "isSameDirection a b = (dot a b > 0)"

definition isOppositeDirection :: "vec3 \<Rightarrow> vec3 \<Rightarrow> bool" where
  "isOppositeDirection a b = (dot a b \<le> 0)"

definition getNormalFromPoints :: "vec3 \<Rightarrow> vec3 \<Rightarrow> vec3 \<Rightarrow> vec3" where
  "getNormalFromPoints a b c = cross (b - a) (c - a)"

text \<open>
  The rest of \<^verbatim>\<open>Geometry.h\<close> is taken as a parameter: the constant \<^verbatim>\<open>EPS\<close> and the
  conversions \<^verbatim>\<open>barycentric\<close> and \<^verbatim>\<open>cartesian\<close>, of which the spec fixes no formula.
\<close>

record Geometry =
  EPS :: real
  barycentric :: "vec3 \<Rightarrow> vec3 \<Rightarrow> vec3 \<Rightarrow> vec3 \<Rightarrow> vec3"
  cartesian :: "vec3 \<Rightarrow> vec3 \<Rightarrow> vec3 \<Rightarrow> vec3 \<Rightarrow> vec3"

section \<open>Simplex\<close>

datatype error =
    InvalidSimplexSize    \<comment> \<open>the \<^verbatim>\<open>throw\<close> of \<open>triangulate\<close>\<close>
  | PointNotInSimplex     \<comment> \<open>\<open>remove\<close> of an absent vertex\<close>
  | UndefinedBehaviour    \<comment> \<open>an index past the end of a vector, a null or unset read\<close>

definition andThen :: "error + 'a \<Rightarrow> ('a \<Rightarrow> error + 'b) \<Rightarrow> error + 'b" where
  "andThen r f = (case r of Inl e \<Rightarrow> Inl e | Inr x \<Rightarrow> f x)"

type_synonym triangle = "nat \<times> nat \<times> nat"

type_synonym edge = "nat \<times> nat"

record Simplex =
  vertices :: "SupportPoint list"
  triangles :: "triangle list"

text \<open>
  Modelled from the spec: \<^verbatim>\<open>Simplex.h\<close> (constructor, \<open>add\<close>, \<open>remove\<close>, \<open>count\<close>) is not
  among the sources. \<open>add\<close> appends; \<open>remove\<close> deletes the first vertex that matches by
  value, and an absent point is a fatal precondition violation.
\<close>

definition newSimplex :: "SupportPoint list \<Rightarrow> Simplex" where
  "newSimplex vs = \<lparr> vertices = vs, triangles = [] \<rparr>"

definition add :: "Simplex \<Rightarrow> SupportPoint \<Rightarrow> Simplex" where
  "add s p = s \<lparr> vertices := vertices s @ [p] \<rparr>"

definition remove :: "Simplex \<Rightarrow> SupportPoint \<Rightarrow> error + Simplex" where
  "remove s p =
     (if p \<in> set (vertices s) then Inr (s \<lparr> vertices := remove1 p (vertices s) \<rparr>)
      else Inl PointNotInSimplex)"

definition count :: "Simplex \<Rightarrow> nat" where
  "count s = length (vertices s)"

text \<open>The synthesized vertices of \<open>triangulate\<close> carry zero hull points.\<close>

definition synthesized :: "vec3 \<Rightarrow> SupportPoint" where
  "synthesized m =
     \<lparr> minkowski = m, convexHull1Point = Vec3 0 0 0, convexHull2Point = Vec3 0 0 0 \<rparr>"

text \<open>
  \<^verbatim>\<open>Simplex::isCorrectOrder\<close>, first the overload with the opposite position, then the
  one with the opposite index. Both read \<^verbatim>\<open>_vertices\<close> unchecked; \<open>triangulate\<close> calls
  them on four vertices with indices below four.
\<close>

definition isCorrectOrderAt :: "SupportPoint list \<Rightarrow> nat \<Rightarrow> nat \<Rightarrow> nat \<Rightarrow> vec3 \<Rightarrow> bool" where
  "isCorrectOrderAt vs a b c opposite =
     (let normal = getNormalFromPoints (minkowski (vs ! a)) (minkowski (vs ! b))
                     (minkowski (vs ! c));
          height = opposite - minkowski (vs ! a)
      in isOppositeDirection normal height)"

definition isCorrectOrder :: "SupportPoint list \<Rightarrow> nat \<Rightarrow> nat \<Rightarrow> nat \<Rightarrow> nat \<Rightarrow> bool" where
  "isCorrectOrder vs a b c opposite = isCorrectOrderAt vs a b c (minkowski (vs ! opposite))"

text \<open>\<^verbatim>\<open>Simplex::triangulate\<close>: the two padding steps, then the four triangles.\<close>

definition padLine :: "Geometry \<Rightarrow> SupportPoint list \<Rightarrow> SupportPoint list" where
  "padLine geo vs =
     (if length vs = 2 then
        (let origin = Vec3 0 0 0;
             a = minkowski (vs ! 0);
             b = minkowski (vs ! 1);
             ba = a - b;
             bo = origin - b;
             toC = cross ba bo
         in vs @ [synthesized (a + scale (1 / 10) (normalized toC)),
                  synthesized (b + scale (1 + EPS geo) bo)])
      else vs)"

definition padTriangle :: "Geometry \<Rightarrow> SupportPoint list \<Rightarrow> SupportPoint list" where
  "padTriangle geo vs =
     (if length vs = 3 then
        (let origin = Vec3 0 0 0;
             b = minkowski (vs ! 1);
             bo = origin - b
         in vs @ [synthesized (b + scale (1 + EPS geo) bo)])
      else vs)"

definition triangulate :: "Geometry \<Rightarrow> Simplex \<Rightarrow> error + Simplex" where
  "triangulate geo s =
     (if length (vertices s) < 2 \<or> length (vertices s) > 4 then Inl InvalidSimplexSize
      else
        (let vs = padTriangle geo (padLine geo (vertices s))
         in if isCorrectOrder vs 0 1 2 3
            then Inr \<lparr> vertices = vs,
                       triangles = triangles s @ [(0, 1, 2), (0, 3, 1), (0, 2, 3), (1, 3, 2)] \<rparr>
            else Inr \<lparr> vertices = vs,
                       triangles = triangles s @ [(0, 2, 1), (0, 1, 3), (0, 3, 2), (1, 2, 3)] \<rparr>))"

text \<open>
  Modelled from the spec: \<^verbatim>\<open>Face\<close> is declared in a header that is not among the
  sources; the spec gives its three vertices, its unit normal and its distance.

  \<^verbatim>\<open>Simplex::findClosestFace\<close>. The face is default-constructed and only its distance
  is set before the loop, so its normal and vertices are unset until a triangle is chosen.
  For a triangle with a zero normal the source computes \<^verbatim>\<open>abs(0.0 / 0.0)\<close>, which is not
  a number and makes the comparison false: such a triangle is never chosen.
\<close>

record Face =
  faceVertices :: "SupportPoint list"
  faceNormal :: "vec3 option"
  faceDistance :: real

fun closestFrom :: "Face \<Rightarrow> SupportPoint list \<Rightarrow> triangle list \<Rightarrow> error + Face" where
  "closestFrom closest vs [] = Inr closest"
| "closestFrom closest vs ((i, j, k) # ts) =
     (if i < length vs \<and> j < length vs \<and> k < length vs then
        (let aSP = vs ! i; bSP = vs ! j; cSP = vs ! k;
             a = minkowski aSP; b = minkowski bSP; c = minkowski cSP;
             normal = getNormalFromPoints a b c;
             d = - dot normal a;
             distance = \<bar>d / norm3 normal\<bar>
         in if norm3 normal \<noteq> 0 \<and> distance < faceDistance closest
            then closestFrom \<lparr> faceVertices = [aSP, bSP, cSP],
                               faceNormal = Some (normalized normal),
                               faceDistance = distance \<rparr> vs ts
            else closestFrom closest vs ts)
      else Inl UndefinedBehaviour)"

definition findClosestFace :: "Simplex \<Rightarrow> error + Face" where
  "findClosestFace s =
     closestFrom \<lparr> faceVertices = [], faceNormal = None, faceDistance = DBL_MAX \<rparr>
       (vertices s) (triangles s)"

text \<open>\<^verbatim>\<open>Simplex::addEdge\<close> and \<^verbatim>\<open>Simplex::extend\<close>.\<close>

fun addEdge :: "edge list \<Rightarrow> nat \<Rightarrow> nat \<Rightarrow> edge list" where
  "addEdge [] a b = [(a, b)]"
| "addEdge (e # edges) a b =
     (if fst e = b \<and> snd e = a then edges else e # addEdge edges a b)"

fun splitVisible ::
  "SupportPoint list \<Rightarrow> vec3 \<Rightarrow> triangle list \<Rightarrow> triangle list \<Rightarrow> edge list \<Rightarrow>
   error + (triangle list \<times> edge list)" where
  "splitVisible vs v [] newTriangles edges = Inr (newTriangles, edges)"
| "splitVisible vs v ((a, b, c) # ts) newTriangles edges =
     (if a < length vs \<and> b < length vs \<and> c < length vs then
        (let normal = getNormalFromPoints (minkowski (vs ! a)) (minkowski (vs ! b))
                        (minkowski (vs ! c))
         in if isSameDirection normal (v - minkowski (vs ! a))
            then splitVisible vs v ts newTriangles
                   (addEdge (addEdge (addEdge edges a b) b c) c a)
            else splitVisible vs v ts (newTriangles @ [(a, b, c)]) edges)
      else Inl UndefinedBehaviour)"

definition extend :: "Simplex \<Rightarrow> SupportPoint \<Rightarrow> error + (bool \<times> Simplex)" where
  "extend s v =
     (if \<exists>x \<in> set (vertices s). minkowski x = minkowski v then Inr (False, s)
      else
        (let newVertexPosition = length (vertices s);
             vs = vertices s @ [v]
         in andThen (splitVisible vs (minkowski v) (triangles s) [] [])
              (\<lambda>(newTriangles, edges).
                 Inr (True, \<lparr> vertices = vs,
                              triangles = newTriangles @
                                map (\<lambda>e. (newVertexPosition, fst e, snd e)) edges \<rparr>))))"

section \<open>GJK\<close>

definition MAX_ITERATIONS :: nat where
  "MAX_ITERATIONS = 50"

definition EPA_TOLERANCE :: real where
  "EPA_TOLERANCE = 1 / 100000"

text \<open>
  The region routines take the simplex and the direction by reference; the model returns
  the flag together with both. \<^verbatim>\<open>simplex[i]\<close> past the end is undefined behaviour.
\<close>

definition processLine :: "Simplex \<Rightarrow> vec3 \<Rightarrow> error + (bool \<times> Simplex \<times> vec3)" where
  "processLine simplex direction =
     (if length (vertices simplex) < 2 then Inl UndefinedBehaviour
      else
        (let aSP = vertices simplex ! 1;
             bSP = vertices simplex ! 0;
             a = minkowski aSP;
             b = minkowski bSP;
             ab = b - a;
             aO = - a
         in if isSameDirection ab aO then Inr (False, simplex, cross (cross ab aO) ab)
            else andThen (remove simplex bSP) (\<lambda>s1. Inr (False, s1, aO))))"

definition processTriangle :: "Simplex \<Rightarrow> vec3 \<Rightarrow> error + (bool \<times> Simplex \<times> vec3)" where
  "processTriangle simplex direction =
     (if length (vertices simplex) < 3 then Inl UndefinedBehaviour
      else
        (let aSP = vertices simplex ! 2;
             bSP = vertices simplex ! 1;
             cSP = vertices simplex ! 0;
             a = minkowski aSP;
             b = minkowski bSP;
             c = minkowski cSP;
             ab = b - a;
             ac = c - a;
             abc = cross ab ac;
             aO = - a;
             acNormal = cross abc ac;
             abNormal = cross ab abc
         in if isSameDirection acNormal aO then
              (if isSameDirection ac aO then
                 andThen (remove simplex bSP) (\<lambda>s1. Inr (False, s1, cross (cross ac aO) ac))
               else if isSameDirection ab aO then
                 andThen (remove simplex cSP) (\<lambda>s1. Inr (False, s1, cross (cross ab aO) ab))
               else
                 andThen (remove simplex bSP) (\<lambda>s1.
                 andThen (remove s1 cSP) (\<lambda>s2. Inr (False, s2, aO))))
            else if isSameDirection abNormal aO then
              (if isSameDirection ab aO then
                 andThen (remove simplex cSP) (\<lambda>s1. Inr (False, s1, cross (cross ab aO) ab))
               else
                 andThen (remove simplex bSP) (\<lambda>s1.
                 andThen (remove s1 cSP) (\<lambda>s2. Inr (False, s2, aO))))
            else if isSameDirection abc aO then
              Inr (False, simplex, cross (cross abc aO) abc)
            else
              Inr (False, simplex, cross (- cross abc aO) (- abc))))"

definition processTetrahedron :: "Simplex \<Rightarrow> vec3 \<Rightarrow> error + (bool \<times> Simplex \<times> vec3)" where
  "processTetrahedron simplex direction =
     (if length (vertices simplex) < 4 then Inl UndefinedBehaviour
      else
        (let aSP = vertices simplex ! 3;
             bSP = vertices simplex ! 2;
             cSP = vertices simplex ! 1;
             dSP = vertices simplex ! 0;
             a = minkowski aSP;
             b = minkowski bSP;
             c = minkowski cSP;
             d = minkowski dSP;
             ac = c - a;
             ad = d - a;
             ab = b - a;
             acd = cross ad ac;
             abd = cross ab ad;
             abc = cross ac ab;
             aO = - a
         in if isSameDirection abc aO then
              (if isSameDirection (cross abc ac) aO then
                 andThen (remove simplex bSP) (\<lambda>s1.
                 andThen (remove s1 dSP) (\<lambda>s2. Inr (False, s2, cross (cross ac aO) ac)))
               else if isSameDirection (cross ab abc) aO then
                 andThen (remove simplex cSP) (\<lambda>s1.
                 andThen (remove s1 dSP) (\<lambda>s2. Inr (False, s2, cross (cross ab aO) ab)))
               else
                 andThen (remove simplex dSP) (\<lambda>s1. Inr (False, s1, abc)))
            else if isSameDirection acd aO then
              (if isSameDirection (cross acd ad) aO then
                 andThen (remove simplex bSP) (\<lambda>s1.
                 andThen (remove s1 cSP) (\<lambda>s2. Inr (False, s2, cross (cross ad aO) ad)))
               else if isSameDirection (cross ac acd) aO then
                 andThen (remove simplex bSP) (\<lambda>s1.
                 andThen (remove s1 dSP) (\<lambda>s2. Inr (False, s2, cross (cross ac aO) ac)))
               else
                 andThen (remove simplex bSP) (\<lambda>s1. Inr (False, s1, acd)))
            else if isSameDirection abd aO then
              (if isSameDirection (cross abd ab) aO then
                 andThen (remove simplex cSP) (\<lambda>s1.
                 andThen (remove s1 dSP) (\<lambda>s2. Inr (False, s2, cross (cross ab aO) ab)))
               else if isSameDirection (cross ad abd) aO then
                 andThen (remove simplex bSP) (\<lambda>s1.
                 andThen (remove s1 cSP) (\<lambda>s2. Inr (False, s2, cross (cross ad aO) ad)))
               else
                 andThen (remove simplex cSP) (\<lambda>s1. Inr (False, s1, abd)))
            else Inr (True, simplex, direction)))"

definition processSimplex :: "Simplex \<Rightarrow> vec3 \<Rightarrow> error + (bool \<times> Simplex \<times> vec3)" where
  "processSimplex simplex direction =
     (if count simplex = 2 then processLine simplex direction
      else if count simplex = 3 then processTriangle simplex direction
      else processTetrahedron simplex direction)"

section \<open>EPA\<close>

text \<open>
  One pass through the body of the \<^verbatim>\<open>while (true)\<close> loop of \<^verbatim>\<open>GjkAlgorithm::EPA\<close>:
  the stop flag, the simplex as \<open>extend\<close> left it, and the collision record, which is
  written only when the flag is set.
\<close>

definition storeCollision ::
  "Geometry \<Rightarrow> Face \<Rightarrow> vec3 \<Rightarrow> SupportPoint \<Rightarrow> real \<Rightarrow> Collision \<Rightarrow> error + Collision" where
  "storeCollision geo face normal p d collision =
     (case (faceVertices face, firstObject collision, secondObject collision) of
        ([f0, f1, f2], Some first, Some second) \<Rightarrow>
          (let bary = barycentric geo (minkowski p) (minkowski f0) (minkowski f1) (minkowski f2);
               poc1 = cartesian geo bary (convexHull1Point f0) (convexHull1Point f1)
                        (convexHull1Point f2);
               poc2 = cartesian geo bary (convexHull2Point f0) (convexHull2Point f1)
                        (convexHull2Point f2)
           in Inr (collision \<lparr> firstPOC := poc1,
                                secondPOC := poc2,
                                intersectionVector := scale d normal,
                                unitNormal := normalized (position first - position second) \<rparr>))
      | _ \<Rightarrow> Inl UndefinedBehaviour)"

definition EPA_iteration ::
  "Geometry \<Rightarrow> Simplex \<Rightarrow> vec3 list \<Rightarrow> vec3 list \<Rightarrow> Collision \<Rightarrow>
   error + (bool \<times> Simplex \<times> Collision)" where
  "EPA_iteration geo simplex convex1 convex2 collision =
     andThen (findClosestFace simplex) (\<lambda>face.
       case faceNormal face of
         None \<Rightarrow> Inl UndefinedBehaviour
       | Some normal \<Rightarrow>
          (let distance = faceDistance face;
               p = support convex1 convex2 normal;
               d = \<bar>dot (minkowski p) normal\<bar>;
               stop1 = (d - distance < EPA_TOLERANCE)
           in andThen (extend simplex p) (\<lambda>(extended, simplex').
                (let stop = (stop1 \<or> \<not> extended)
                 in if stop
                    then andThen (storeCollision geo face normal p d collision)
                           (\<lambda>collision'. Inr (True, simplex', collision'))
                    else Inr (False, simplex', collision)))))"

text \<open>
  The loop has no bound in the source. The first argument counts the passes the model may
  still make; \<open>None\<close> says that they did not suffice.
\<close>

fun EPA_loop ::
  "nat \<Rightarrow> Geometry \<Rightarrow> Simplex \<Rightarrow> vec3 list \<Rightarrow> vec3 list \<Rightarrow> Collision \<Rightarrow>
   (error + (Simplex \<times> Collision)) option" where
  "EPA_loop 0 geo simplex convex1 convex2 collision = None"
| "EPA_loop (Suc fuel) geo simplex convex1 convex2 collision =
     (case EPA_iteration geo simplex convex1 convex2 collision of
        Inl e \<Rightarrow> Some (Inl e)
      | Inr (stop, simplex', collision') \<Rightarrow>
          if stop then Some (Inr (simplex', collision'))
          else EPA_loop fuel geo simplex' convex1 convex2 collision')"

definition EPA ::
  "nat \<Rightarrow> Geometry \<Rightarrow> Simplex \<Rightarrow> vec3 list \<Rightarrow> vec3 list \<Rightarrow> Collision \<Rightarrow>
   (error + (Simplex \<times> Collision)) option" where
  "EPA fuel geo simplex convex1 convex2 collision =
     (case triangulate geo simplex of
        Inl e \<Rightarrow> Some (Inl e)
      | Inr simplex' \<Rightarrow> EPA_loop fuel geo simplex' convex1 convex2 collision)"

section \<open>The intersection query\<close>

datatype gjk_outcome = NoIntersection | ToEPA Simplex

text \<open>
  The \<^verbatim>\<open>for\<close> loop of \<^verbatim>\<open>GjkAlgorithm::intersect\<close>; the first argument is the number of
  iterations still allowed. \<open>NoIntersection\<close> is the \<^verbatim>\<open>return false\<close>, \<open>ToEPA\<close> carries the
  simplex with which the loop is left, by \<^verbatim>\<open>break\<close> or by its bound.
\<close>

fun gjkLoop :: "nat \<Rightarrow> vec3 list \<Rightarrow> vec3 list \<Rightarrow> Simplex \<Rightarrow> vec3 \<Rightarrow> error + gjk_outcome" where
  "gjkLoop 0 convex1 convex2 simplex d = Inr (ToEPA simplex)"
| "gjkLoop (Suc n) convex1 convex2 simplex d =
     (let a = support convex1 convex2 d
      in if isOppositeDirection (minkowski a) d then Inr NoIntersection
         else
           (case processSimplex (add simplex a) d of
              Inl e \<Rightarrow> Inl e
            | Inr (converged, simplex', d') \<Rightarrow>
                if converged then Inr (ToEPA simplex')
                else gjkLoop n convex1 convex2 simplex' d'))"

definition initialSimplex :: "vec3 list \<Rightarrow> vec3 list \<Rightarrow> Simplex" where
  "initialSimplex convex1 convex2 = newSimplex [support convex1 convex2 (Vec3 1 1 1)]"

definition initialDirection :: "vec3 list \<Rightarrow> vec3 list \<Rightarrow> vec3" where
  "initialDirection convex1 convex2 = - minkowski (support convex1 convex2 (Vec3 1 1 1))"

definition intersect ::
  "nat \<Rightarrow> Geometry \<Rightarrow> vec3 list \<Rightarrow> vec3 list \<Rightarrow> Collision \<Rightarrow>
   (error + (bool \<times> Collision)) option" where
  "intersect fuel geo convex1 convex2 collision =
     (case gjkLoop MAX_ITERATIONS convex1 convex2 (initialSimplex convex1 convex2)
             (initialDirection convex1 convex2) of
        Inl e \<Rightarrow> Some (Inl e)
      | Inr NoIntersection \<Rightarrow> Some (Inr (False, collision))
      | Inr (ToEPA simplex) \<Rightarrow>
          (case EPA fuel geo simplex convex1 convex2 collision of
             None \<Rightarrow> None
           | Some (Inl e) \<Rightarrow> Some (Inl e)
           | Some (Inr (simplex', collision')) \<Rightarrow> Some (Inr (True, collision'))))"

section \<open>Notions used to state the results\<close>

text \<open>
  The index of the first vertex of a hull that attains the maximal dot product with a
  direction: no vertex has a larger one, and every earlier vertex has a smaller one.
\<close>

definition firstMaximiser :: "vec3 list \<Rightarrow> vec3 \<Rightarrow> nat \<Rightarrow> bool" where
  "firstMaximiser convex direction i =
     (i < length convex \<and>
      (\<forall>j \<in> {..<length convex}. dot (convex ! j) direction \<le> dot (convex ! i) direction) \<and>
      (\<forall>j \<in> {..<i}. dot (convex ! j) direction < dot (convex ! i) direction))"

text \<open>
  A sequence is sorted with a comparator when no element compares less than its
  predecessor (the postcondition of \<^verbatim>\<open>std::sort\<close>, the test of \<^verbatim>\<open>std::is_sorted\<close>).
\<close>

fun isSortedWith :: "('a \<Rightarrow> 'a \<Rightarrow> bool) \<Rightarrow> 'a list \<Rightarrow> bool" where
  "isSortedWith cmp [] = True"
| "isSortedWith cmp [x] = True"
| "isSortedWith cmp (x # y # ys) = (\<not> cmp y x \<and> isSortedWith cmp (y # ys))"

text \<open>The Euclidean norm of the penetration vector of a collision.\<close>

definition magnitude :: "Collision \<Rightarrow> real" where
  "magnitude c = sqrt ((vx (intersectionVector c))\<^sup>2 + (vy (intersectionVector c))\<^sup>2 +
                       (vz (intersectionVector c))\<^sup>2)"

text \<open>
  The state of the loop of \<open>intersect\<close> at the start of iteration \<open>k\<close>, counted from 0: the
  simplex and the search direction after \<open>k\<close> iterations none of which returned or left the
  loop, \<open>None\<close> when the loop does not get that far. Iteration \<open>k\<close> rejects when its support
  point has a non-positive dot product with the search direction; it converges with a
  simplex when its support point has a positive one and the region routine returns true,
  leaving that simplex; the loop is exhausted with a simplex when all \<open>MAX_ITERATIONS\<close>
  iterations pass without either, leaving that simplex.
\<close>

fun gjkStateAfter ::
  "nat \<Rightarrow> vec3 list \<Rightarrow> vec3 list \<Rightarrow> Simplex \<Rightarrow> vec3 \<Rightarrow> (Simplex \<times> vec3) option" where
  "gjkStateAfter 0 convex1 convex2 simplex d = Some (simplex, d)"
| "gjkStateAfter (Suc k) convex1 convex2 simplex d =
     (let a = support convex1 convex2 d
      in if isOppositeDirection (minkowski a) d then None
         else
           (case processSimplex (add simplex a) d of
              Inr (False, simplex', d') \<Rightarrow> gjkStateAfter k convex1 convex2 simplex' d'
            | _ \<Rightarrow> None))"

definition rejectsFrom :: "vec3 list \<Rightarrow> vec3 list \<Rightarrow> (Simplex \<times> vec3) option \<Rightarrow> bool" where
  "rejectsFrom convex1 convex2 state =
     (case state of
        None \<Rightarrow> False
      | Some (simplex, d) \<Rightarrow> dot (minkowski (support convex1 convex2 d)) d \<le> 0)"

definition convergesFrom ::
  "vec3 list \<Rightarrow> vec3 list \<Rightarrow> (Simplex \<times> vec3) option \<Rightarrow> Simplex \<Rightarrow> bool" where
  "convergesFrom convex1 convex2 state result =
     (case state of
        None \<Rightarrow> False
      | Some (simplex, d) \<Rightarrow>
          0 < dot (minkowski (support convex1 convex2 d)) d \<and>
          (case processSimplex (add simplex (support convex1 convex2 d)) d of
             Inr (True, simplex', d') \<Rightarrow> simplex' = result
           | _ \<Rightarrow> False))"

definition rejectsAt :: "nat \<Rightarrow> vec3 list \<Rightarrow> vec3 list \<Rightarrow> bool" where
  "rejectsAt k convex1 convex2 =
     rejectsFrom convex1 convex2
       (gjkStateAfter k convex1 convex2 (initialSimplex convex1 convex2)
          (initialDirection convex1 convex2))"

definition convergesAt :: "nat \<Rightarrow> vec3 list \<Rightarrow> vec3 list \<Rightarrow> Simplex \<Rightarrow> bool" where
  "convergesAt k convex1 convex2 result =
     convergesFrom convex1 convex2
       (gjkStateAfter k convex1 convex2 (initialSimplex convex1 convex2)
          (initialDirection convex1 convex2)) result"

definition exhaustedWith :: "vec3 list \<Rightarrow> vec3 list \<Rightarrow> Simplex \<Rightarrow> bool" where
  "exhaustedWith convex1 convex2 result =
     (case gjkStateAfter MAX_ITERATIONS convex1 convex2 (initialSimplex convex1 convex2)
             (initialDirection convex1 convex2) of
        None \<Rightarrow> False
      | Some (simplex, d) \<Rightarrow> simplex = result)"

text \<open>
  The Minkowski differences of the points of two hulls, the zero vector counted among the
  points of each hull (it is the candidate with which \<open>getFurthestPoint\<close> starts). Every
  support point lies in this finite set.
\<close>

definition differences :: "vec3 list \<Rightarrow> vec3 list \<Rightarrow> vec3 set" where
  "differences c1 c2 =
     (\<lambda>(a, b). a - b) ` (insert (Vec3 0 0 0) (set c1) \<times> insert (Vec3 0 0 0) (set c2))"

text \<open>
  The normal of a triangle of a triangulated simplex as the source computes it, the fourth
  vertex of the tetrahedron, and the scalar product of that normal with the vector from the
  first vertex of the triangle to the fourth vertex, which is the quantity \<open>isCorrectOrder\<close>
  tests. The normal points outward, away from the fourth vertex, when this product is
  negative. \<open>tripleProduct\<close> is the scalar triple product of the four vertices, which
  vanishes exactly when they are coplanar.
\<close>

definition oppositeIndex :: "triangle \<Rightarrow> nat" where
  "oppositeIndex t = (case t of (a, b, c) \<Rightarrow> 6 - (a + b + c))"

definition triangleNormal :: "SupportPoint list \<Rightarrow> triangle \<Rightarrow> vec3" where
  "triangleNormal vs t =
     (case t of (i, j, k) \<Rightarrow>
        getNormalFromPoints (minkowski (vs ! i)) (minkowski (vs ! j)) (minkowski (vs ! k)))"

definition faceTripleProduct :: "SupportPoint list \<Rightarrow> triangle \<Rightarrow> real" where
  "faceTripleProduct vs t =
     (case t of (i, j, k) \<Rightarrow>
        dot (triangleNormal vs t) (minkowski (vs ! oppositeIndex t) - minkowski (vs ! i)))"

definition outward :: "SupportPoint list \<Rightarrow> triangle \<Rightarrow> bool" where
  "outward vs t = (faceTripleProduct vs t < 0)"

definition tripleProduct :: "SupportPoint list \<Rightarrow> real" where
  "tripleProduct vs = dot (triangleNormal vs (0, 1, 2)) (minkowski (vs ! 3) - minkowski (vs ! 0))"




section \<open>Sample data\<close>

text \<open>
  A tetrahedron around the origin, triangulated: three faces in the planes \<open>x = -1\<close>,
  \<open>y = -1\<close>, \<open>z = -1\<close> and the face \<open>x + 2y + 2z = 1\<close> at distance \<open>1/3\<close>. The hull
  \<open>cornerHull\<close> has its four vertices and one more point just beyond that face.
\<close>

definition cornerSimplex :: Simplex where
  "cornerSimplex =
     \<lparr> vertices =
         [\<lparr> minkowski = Vec3 (- 1) (- 1) (- 1), convexHull1Point = Vec3 (- 1) (- 1) (- 1),
            convexHull2Point = Vec3 0 0 0 \<rparr>,
          \<lparr> minkowski = Vec3 5 (- 1) (- 1), convexHull1Point = Vec3 5 (- 1) (- 1),
            convexHull2Point = Vec3 0 0 0 \<rparr>,
          \<lparr> minkowski = Vec3 (- 1) 2 (- 1), convexHull1Point = Vec3 (- 1) 2 (- 1),
            convexHull2Point = Vec3 0 0 0 \<rparr>,
          \<lparr> minkowski = Vec3 (- 1) (- 1) 2, convexHull1Point = Vec3 (- 1) (- 1) 2,
            convexHull2Point = Vec3 0 0 0 \<rparr>],
       triangles = [(0, 2, 1), (0, 1, 3), (0, 3, 2), (1, 2, 3)] \<rparr>"

definition cornerHull :: "vec3 list" where
  "cornerHull = [Vec3 (1000003 / 1000000) 0 0, Vec3 (- 1) (- 1) (- 1), Vec3 5 (- 1) (- 1),
                 Vec3 (- 1) 2 (- 1), Vec3 (- 1) (- 1) 2]"

definition originHull :: "vec3 list" where
  "originHull = [Vec3 0 0 0]"

definition cornerProbe :: SupportPoint where
  "cornerProbe = \<lparr> minkowski = Vec3 (1000003 / 1000000) 0 0,
                   convexHull1Point = Vec3 (1000003 / 1000000) 0 0,
                   convexHull2Point = Vec3 0 0 0 \<rparr>"

definition cornerExtended :: Simplex where
  "cornerExtended =
     \<lparr> vertices = vertices cornerSimplex @ [cornerProbe],
       triangles = [(0, 2, 1), (0, 1, 3), (0, 3, 2), (4, 1, 2), (4, 2, 3), (4, 3, 1)] \<rparr>"

definition sampleCollision :: Collision where
  "sampleCollision =
     \<lparr> firstObject = Some \<lparr> position = Vec3 0 0 0 \<rparr>,
       secondObject = Some \<lparr> position = Vec3 1 0 0 \<rparr>,
       unitNormal = Vec3 0 0 0, firstPOC = Vec3 0 0 0, secondPOC = Vec3 0 0 0,
       intersectionVector = Vec3 0 0 0 \<rparr>"

definition tetraHull :: "vec3 list" where
  "tetraHull = [Vec3 (- 1) (- 1) (- 1), Vec3 5 (- 1) (- 1), Vec3 (- 1) 2 (- 1), Vec3 (- 1) (- 1) 2]"

definition ownPoint :: "vec3 \<Rightarrow> SupportPoint" where
  "ownPoint v = \<lparr> minkowski = v, convexHull1Point = v, convexHull2Point = Vec3 0 0 0 \<rparr>"

definition tetraFound :: Simplex where
  "tetraFound =
     newSimplex [ownPoint (Vec3 5 (- 1) (- 1)), ownPoint (Vec3 (- 1) 2 (- 1)),
                 ownPoint (Vec3 (- 1) (- 1) 2), ownPoint (Vec3 5 (- 1) (- 1))]"

text \<open>
  The tetrahedron with which the loop of \<open>intersect\<close> converges on \<open>tetraHull\<close> and the
  origin, triangulated.
\<close>

definition tetraTriangulated :: Simplex where
  "tetraTriangulated =
     \<lparr> vertices = vertices tetraFound,
       triangles = [(0, 1, 2), (0, 3, 1), (0, 2, 3), (1, 3, 2)] \<rparr>"

text \<open>
  A segment on a line through the origin; a tetrahedron whose newest vertex \<open>(1, 1, 1)\<close>
  lies between the origin and the plane \<open>x + y + z = 4\<close> of its three older vertices; a
  tetrahedron with the origin inside; and a tetrahedron whose oldest vertex \<open>(1, 1, 1)\<close> is
  its point nearest to the origin.
\<close>

definition collinearSegment :: Simplex where
  "collinearSegment = newSimplex [ownPoint (Vec3 1 0 0), ownPoint (Vec3 2 0 0)]"







text \<open>
  Four points on which, together with the origin, the loop of \<open>intersect\<close> runs through all
  its iterations, alternating between a segment and a triangle, and the triangle with which
  it is left.
\<close>

definition capHull :: "vec3 list" where
  "capHull = [Vec3 2 0 1, Vec3 1 (- 2) 0, Vec3 1 0 1, Vec3 0 2 (- 1)]"

definition capSimplex :: Simplex where
  "capSimplex =
     newSimplex [ownPoint (Vec3 2 0 1), ownPoint (Vec3 0 2 (- 1)), ownPoint (Vec3 1 (- 2) 0)]"

section \<open>Lemmas\<close>

lemma furthestFrom_keep:
  "\<forall>v \<in> set xs. dot v d \<le> mx \<Longrightarrow> furthestFrom mx maxV xs d = maxV"
  by (induction xs arbitrary: mx maxV) auto

lemma furthestFrom_first_max:
  "\<exists>v \<in> set xs. mx < dot v d \<Longrightarrow>
   \<exists>i. firstMaximiser xs d i \<and> furthestFrom mx maxV xs d = xs ! i \<and> mx < dot (xs ! i) d"
proof (induction xs arbitrary: mx maxV)
  case Nil
  then show ?case by simp
next
  case (Cons x xs)
  show ?case
  proof (cases "mx < dot x d")
    case True
    show ?thesis
    proof (cases "\<exists>v \<in> set xs. dot x d < dot v d")
      case False
      then have "furthestFrom (dot x d) x xs d = x"
        by (intro furthestFrom_keep) (auto simp: not_less)
      moreover have "firstMaximiser (x # xs) d 0"
        using False by (auto simp: firstMaximiser_def not_less nth_Cons split: nat.splits)
      ultimately show ?thesis using True by (intro exI[of _ 0]) simp
    next
      case ex: True
      from Cons.IH[OF ex, of x] obtain i where
        i: "firstMaximiser xs d i" "furthestFrom (dot x d) x xs d = xs ! i" "dot x d < dot (xs ! i) d"
        by blast
      have "firstMaximiser (x # xs) d (Suc i)"
        using i(1,3) unfolding firstMaximiser_def
        by (auto simp: nth_Cons less_Suc_eq_0_disj split: nat.splits)
      then show ?thesis using i True by (intro exI[of _ "Suc i"]) auto
    qed
  next
    case False
    with Cons.prems have ex: "\<exists>v \<in> set xs. mx < dot v d" by auto
    from Cons.IH[OF ex, of maxV] obtain i where
      i: "firstMaximiser xs d i" "furthestFrom mx maxV xs d = xs ! i" "mx < dot (xs ! i) d"
      by blast
    have "firstMaximiser (x # xs) d (Suc i)"
      using i(1,3) False unfolding firstMaximiser_def
      by (auto simp: nth_Cons less_Suc_eq_0_disj not_less split: nat.splits)
    then show ?thesis using i False by (intro exI[of _ "Suc i"]) auto
  qed
qed

lemma norm3_euclidean: "norm3 v = sqrt ((vx v)\<^sup>2 + (vy v)\<^sup>2 + (vz v)\<^sup>2)"
  by (simp add: norm3_def squaredNorm_def dot_def power2_eq_square)

lemma isSortedWith_magnitude:
  "isSortedWith CollisionCompareLess cs \<Longrightarrow> sorted (map magnitude cs)"
proof (induction CollisionCompareLess cs rule: isSortedWith.induct)
  case (3 x y ys)
  then have "magnitude x \<le> magnitude y" and "sorted (map magnitude (y # ys))"
    by (simp_all add: CollisionCompareLess_def magnitude_def norm3_euclidean not_less)
  then show ?case by fastforce
qed simp_all

lemma triple_rotations:
  "dot (getNormalFromPoints p0 p3 p1) (p2 - p0) = dot (getNormalFromPoints p0 p1 p2) (p3 - p0)"
  "dot (getNormalFromPoints p0 p2 p3) (p1 - p0) = dot (getNormalFromPoints p0 p1 p2) (p3 - p0)"
  "dot (getNormalFromPoints p1 p3 p2) (p0 - p1) = dot (getNormalFromPoints p0 p1 p2) (p3 - p0)"
  by (simp_all add: getNormalFromPoints_def dot_def cross_def minus_vec3_def algebra_simps)

lemma triple_reflections:
  "dot (getNormalFromPoints p0 p2 p1) (p3 - p0) = - dot (getNormalFromPoints p0 p1 p2) (p3 - p0)"
  "dot (getNormalFromPoints p0 p1 p3) (p2 - p0) = - dot (getNormalFromPoints p0 p1 p2) (p3 - p0)"
  "dot (getNormalFromPoints p0 p3 p2) (p1 - p0) = - dot (getNormalFromPoints p0 p1 p2) (p3 - p0)"
  "dot (getNormalFromPoints p1 p2 p3) (p0 - p1) = - dot (getNormalFromPoints p0 p1 p2) (p3 - p0)"
  by (simp_all add: getNormalFromPoints_def dot_def cross_def minus_vec3_def algebra_simps)

lemma padded_length:
  "length vs \<in> {2, 3, 4} \<Longrightarrow> length (padTriangle geo (padLine geo vs)) = 4"
  by (auto simp: padTriangle_def padLine_def Let_def)

lemma padded_prefix:
  "take (length vs) (padTriangle geo (padLine geo vs)) = vs"
  by (auto simp: padTriangle_def padLine_def Let_def)

lemma sqrt_values: "sqrt 324 = 18" "sqrt 81 = 9" "sqrt 729 = 27"
  by (rule real_sqrt_unique; simp)+

lemmas vec_defs = getNormalFromPoints_def cross_def dot_def minus_vec3_def plus_vec3_def
  uminus_vec3_def scale_def norm3_def squaredNorm_def normalized_def

lemma corner_closest:
  "findClosestFace cornerSimplex =
     Inr \<lparr> faceVertices = [vertices cornerSimplex ! 1, vertices cornerSimplex ! 2,
                             vertices cornerSimplex ! 3],
           faceNormal = Some (Vec3 (1 / 3) (2 / 3) (2 / 3)),
           faceDistance = 1 / 3 \<rparr>"
  by (simp add: findClosestFace_def cornerSimplex_def Let_def vec_defs sqrt_values DBL_MAX_def)

lemma extend_result:
  assumes "extend s p = Inr (extended, s')"
  shows "extended = (\<not> (\<exists>x \<in> set (vertices s). minkowski x = minkowski p))"
    and "\<not> extended \<Longrightarrow> s' = s"
    and "extended \<Longrightarrow> vertices s' = vertices s @ [p]"
  using assms
  by (auto simp: extend_def andThen_def Let_def split: if_splits sum.splits prod.splits)

lemma corner_support:
  "support cornerHull originHull (Vec3 (1 / 3) (2 / 3) (2 / 3)) = cornerProbe"
  by (simp add: support_def getFurthestPoint_def Let_def vec_defs DBL_MAX_def cornerHull_def
      originHull_def cornerProbe_def)

lemma corner_extend: "extend cornerSimplex cornerProbe = Inr (True, cornerExtended)"
  by (simp add: extend_def cornerSimplex_def cornerProbe_def cornerExtended_def andThen_def
      Let_def isSameDirection_def vec_defs)

lemma corner_tolerance:
  "\<bar>dot (minkowski cornerProbe) (Vec3 (1 / 3) (2 / 3) (2 / 3))\<bar> - 1 / 3 < EPA_TOLERANCE"
  by (simp add: cornerProbe_def dot_def EPA_TOLERANCE_def)

lemma corner_iteration:
  "\<exists>collision'. EPA_iteration geo cornerSimplex cornerHull originHull sampleCollision
      = Inr (True, cornerExtended, collision')"
proof -
  have "\<exists>collision'. storeCollision geo
      \<lparr> faceVertices = [vertices cornerSimplex ! 1, vertices cornerSimplex ! 2,
                         vertices cornerSimplex ! 3],
        faceNormal = Some (Vec3 (1 / 3) (2 / 3) (2 / 3)),
        faceDistance = 1 / 3 \<rparr>
      (Vec3 (1 / 3) (2 / 3) (2 / 3)) cornerProbe
      \<bar>dot (minkowski cornerProbe) (Vec3 (1 / 3) (2 / 3) (2 / 3))\<bar> sampleCollision
      = Inr collision'"
    by (simp add: storeCollision_def sampleCollision_def Let_def)
  then show ?thesis
    using corner_tolerance
    by (auto simp add: EPA_iteration_def corner_closest andThen_def Let_def corner_support
        corner_extend)
qed

lemma ex_less_Suc: "(\<exists>k<Suc n. Q k) \<longleftrightarrow> Q 0 \<or> (\<exists>k<n. Q (Suc k))"
  by (metis less_Suc_eq_0_disj)

lemma processLine_total:
  assumes "vertices s = [bSP, aSP]"
  shows "\<exists>s' d'. processLine s d = Inr (False, s', d') \<and> length (vertices s') \<in> {1, 2, 3}"
  using assms by (auto simp: processLine_def Let_def remove_def andThen_def)

lemma processTriangle_total:
  assumes "vertices s = [cSP, bSP, aSP]"
  shows "\<exists>s' d'. processTriangle s d = Inr (False, s', d') \<and> length (vertices s') \<in> {1, 2, 3}"
  using assms by (auto simp: processTriangle_def Let_def remove_def andThen_def)

lemma initial_count: "length (vertices (initialSimplex c1 c2)) \<in> {1, 2, 3}"
  by (simp add: initialSimplex_def newSimplex_def)

lemmas eval_defs = support_def getFurthestPoint_def Let_def DBL_MAX_def tetraHull_def
  originHull_def ownPoint_def vec_defs

lemma tetra_supports:
  "support tetraHull originHull (Vec3 1 1 1) = ownPoint (Vec3 5 (- 1) (- 1))"
  "support tetraHull originHull (Vec3 (- 5) 1 1) = ownPoint (Vec3 (- 1) 2 (- 1))"
  "support tetraHull originHull (Vec3 (- 27) (- 54) 45) = ownPoint (Vec3 (- 1) (- 1) 2)"
  "support tetraHull originHull (Vec3 810 891 (- 1296)) = ownPoint (Vec3 5 (- 1) (- 1))"
  "support tetraHull originHull (Vec3 (- (1 / 3)) (- (2 / 3)) (- (2 / 3)))
     = ownPoint (Vec3 (- 1) (- 1) (- 1))"
  "support tetraHull originHull (Vec3 (1 / 3) (2 / 3) (2 / 3)) = ownPoint (Vec3 5 (- 1) (- 1))"
  by (simp_all add: eval_defs)

lemmas process_defs = processSimplex_def count_def add_def newSimplex_def processLine_def
  processTriangle_def processTetrahedron_def isSameDirection_def remove_def andThen_def

lemma tetra_step1:
  "processSimplex (add (newSimplex [ownPoint (Vec3 5 (- 1) (- 1))])
       (ownPoint (Vec3 (- 1) 2 (- 1)))) (Vec3 (- 5) 1 1)
   = Inr (False, newSimplex [ownPoint (Vec3 5 (- 1) (- 1)), ownPoint (Vec3 (- 1) 2 (- 1))],
          Vec3 (- 27) (- 54) 45)"
  by (simp add: process_defs ownPoint_def Let_def vec_defs)

lemma tetra_step2:
  "processSimplex (add (newSimplex [ownPoint (Vec3 5 (- 1) (- 1)), ownPoint (Vec3 (- 1) 2 (- 1))])
       (ownPoint (Vec3 (- 1) (- 1) 2))) (Vec3 (- 27) (- 54) 45)
   = Inr (False, newSimplex [ownPoint (Vec3 5 (- 1) (- 1)), ownPoint (Vec3 (- 1) 2 (- 1)),
                             ownPoint (Vec3 (- 1) (- 1) 2)],
          Vec3 810 891 (- 1296))"
  by (simp add: process_defs ownPoint_def Let_def vec_defs)

lemma tetra_step3:
  "processSimplex (add (newSimplex [ownPoint (Vec3 5 (- 1) (- 1)), ownPoint (Vec3 (- 1) 2 (- 1)),
                             ownPoint (Vec3 (- 1) (- 1) 2)])
       (ownPoint (Vec3 5 (- 1) (- 1)))) (Vec3 810 891 (- 1296))
   = Inr (True, tetraFound, Vec3 810 891 (- 1296))"
  by (simp add: process_defs ownPoint_def Let_def vec_defs tetraFound_def)

lemma tetra_loop:
  "gjkLoop MAX_ITERATIONS tetraHull originHull (initialSimplex tetraHull originHull)
     (initialDirection tetraHull originHull) = Inr (ToEPA tetraFound)"
proof -
  have m: "MAX_ITERATIONS = Suc (Suc (Suc 47))"
    by (simp add: MAX_ITERATIONS_def)
  have o: "\<not> isOppositeDirection (Vec3 (- 1) 2 (- 1)) (Vec3 (- 5) 1 1)"
    "\<not> isOppositeDirection (Vec3 (- 1) (- 1) 2) (Vec3 (- 27) (- 54) 45)"
    "\<not> isOppositeDirection (Vec3 5 (- 1) (- 1)) (Vec3 810 891 (- 1296))"
    by (simp_all add: isOppositeDirection_def dot_def)
  have i: "initialSimplex tetraHull originHull = newSimplex [ownPoint (Vec3 5 (- 1) (- 1))]"
    "initialDirection tetraHull originHull = Vec3 (- 5) 1 1"
    by (simp_all add: initialSimplex_def initialDirection_def tetra_supports)
      (simp add: ownPoint_def uminus_vec3_def)
  have own: "minkowski (ownPoint v) = v" for v
    by (simp add: ownPoint_def)
  have "gjkLoop (Suc (Suc (Suc n))) tetraHull originHull
      (newSimplex [ownPoint (Vec3 5 (- 1) (- 1))]) (Vec3 (- 5) 1 1) = Inr (ToEPA tetraFound)" for n
    by (simp add: tetra_supports tetra_step1 tetra_step2 tetra_step3 own o Let_def)
  then show ?thesis
    unfolding m i .
qed

lemma getFurthestPoint_first_maximiser:
  assumes "\<exists>v \<in> set convex. - DBL_MAX < dot v direction"
  shows "\<exists>i. firstMaximiser convex direction i \<and> getFurthestPoint convex direction = convex ! i"
  using furthestFrom_first_max[OF assms] unfolding getFurthestPoint_def by blast

lemma processTetrahedron_total:
  assumes "vertices s = [dSP, cSP, bSP, aSP]"
  shows "\<exists>conv s' d'. processTetrahedron s d = Inr (conv, s', d') \<and>
           (\<not> conv \<longrightarrow> length (vertices s') \<in> {1, 2, 3})"
  using assms by (auto simp: processTetrahedron_def Let_def remove_def andThen_def)

lemma gjkLoop_rejects:
  "gjkLoop n c1 c2 s d = Inr NoIntersection \<longleftrightarrow>
     (\<exists>k<n. rejectsFrom c1 c2 (gjkStateAfter k c1 c2 s d))"
proof (induction n arbitrary: s d)
  case 0
  then show ?case by simp
next
  case (Suc n)
  show ?case
    unfolding ex_less_Suc
    by (auto simp: Let_def Suc.IH rejectsFrom_def isOppositeDirection_def
        split: sum.splits bool.splits)
qed

lemma gjkLoop_toEPA:
  "gjkLoop n c1 c2 s d = Inr (ToEPA r) \<longleftrightarrow>
     (\<exists>d'. gjkStateAfter n c1 c2 s d = Some (r, d')) \<or>
     (\<exists>k<n. convergesFrom c1 c2 (gjkStateAfter k c1 c2 s d) r)"
proof (induction n arbitrary: s d)
  case 0
  then show ?case by auto
next
  case (Suc n)
  show ?case
    unfolding ex_less_Suc
    by (auto simp: Let_def Suc.IH convergesFrom_def isOppositeDirection_def not_le
        split: sum.splits bool.splits)
qed

lemma processSimplex_total:
  assumes "length (vertices s) \<in> {1, 2, 3}"
  shows "\<exists>conv s' d'. processSimplex (add s a) d = Inr (conv, s', d') \<and>
           (\<not> conv \<longrightarrow> length (vertices s') \<in> {1, 2, 3})"
proof -
  from assms consider x where "vertices s = [x]" | x y where "vertices s = [x, y]"
    | x y z where "vertices s = [x, y, z]"
    by (auto simp: length_Suc_conv numeral_3_eq_3 numeral_2_eq_2)
  then show ?thesis
  proof cases
    case 1
    then have "vertices (add s a) = [x, a]" by (simp add: add_def)
    from processLine_total[OF this, of d] 1 show ?thesis
      by (auto simp: processSimplex_def count_def add_def)
  next
    case 2
    then have "vertices (add s a) = [x, y, a]" by (simp add: add_def)
    from processTriangle_total[OF this, of d] 2 show ?thesis
      by (auto simp: processSimplex_def count_def add_def)
  next
    case 3
    then have "vertices (add s a) = [x, y, z, a]" by (simp add: add_def)
    from processTetrahedron_total[OF this, of d] 3 show ?thesis
      by (auto simp: processSimplex_def count_def add_def)
  qed
qed

lemma gjkLoop_no_error:
  assumes "length (vertices s) \<in> {1, 2, 3}"
  shows "gjkLoop n c1 c2 s d = Inr NoIntersection \<or> (\<exists>r. gjkLoop n c1 c2 s d = Inr (ToEPA r))"
  using assms
proof (induction n arbitrary: s d)
  case 0
  then show ?case by simp
next
  case (Suc n)
  from processSimplex_total[OF Suc.prems, of "support c1 c2 d" d] obtain conv s' d' where
    p: "processSimplex (add s (support c1 c2 d)) d = Inr (conv, s', d')"
      "\<not> conv \<longrightarrow> length (vertices s') \<in> {1, 2, 3}"
    by blast
  show ?case
  proof (cases "isOppositeDirection (minkowski (support c1 c2 d)) d \<or> conv")
    case True
    then show ?thesis using p(1) by (auto simp: Let_def)
  next
    case False
    then have "gjkLoop (Suc n) c1 c2 s d = gjkLoop n c1 c2 s' d'"
      using p(1) by (simp add: Let_def)
    with Suc.IH[of s' d'] p(2) False show ?thesis by simp
  qed
qed

lemma furthestFrom_mem: "furthestFrom mx maxV xs d \<in> insert maxV (set xs)"
  by (induction xs arbitrary: mx maxV) (auto split: if_splits)

lemma support_difference: "minkowski (support c1 c2 d) \<in> differences c1 c2"
  using furthestFrom_mem[of "- DBL_MAX" "Vec3 0 0 0" c1 d]
    furthestFrom_mem[of "- DBL_MAX" "Vec3 0 0 0" c2 "- d"]
  by (auto simp: support_def Let_def getFurthestPoint_def differences_def)

lemma finite_differences: "finite (differences c1 c2)"
  by (simp add: differences_def)

lemma card_differences: "card (differences c1 c2) \<le> (length c1 + 1) * (length c2 + 1)"
proof -
  have one: "card (insert (Vec3 0 0 0) (set xs)) \<le> length xs + 1" for xs :: "vec3 list"
    using card_length[of xs] card_insert_le_m1[of "length xs + 1" "set xs" "Vec3 0 0 0"]
    by (simp add: card_insert_if)
  have "card (differences c1 c2)
      \<le> card (insert (Vec3 0 0 0) (set c1) \<times> insert (Vec3 0 0 0) (set c2))"
    unfolding differences_def by (intro card_image_le) simp
  also have "\<dots> = card (insert (Vec3 0 0 0) (set c1)) * card (insert (Vec3 0 0 0) (set c2))"
    by (rule card_cartesian_product)
  also have "\<dots> \<le> (length c1 + 1) * (length c2 + 1)"
    by (intro mult_le_mono one)
  finally show ?thesis .
qed

lemma EPA_iteration_continue:
  assumes "EPA_iteration geo s c1 c2 col = Inr (False, s', col')"
  shows "\<exists>p. minkowski p \<in> differences c1 c2 \<and> minkowski p \<notin> minkowski ` set (vertices s) \<and>
           vertices s' = vertices s @ [p]"
proof -
  from assms obtain normal extended where
    e: "extend s (support c1 c2 normal) = Inr (extended, s')" and "extended"
    by (auto simp: EPA_iteration_def andThen_def Let_def
        split: sum.splits option.splits prod.splits if_splits)
  with extend_result[OF e] support_difference[of c1 c2 normal] show ?thesis
    by (intro exI[of _ "support c1 c2 normal"]) auto
qed

lemma EPA_loop_returns:
  assumes "card (differences c1 c2 - minkowski ` set (vertices s)) < fuel"
  shows "EPA_loop fuel geo s c1 c2 col \<noteq> None"
  using assms
proof (induction fuel arbitrary: s col)
  case 0
  then show ?case by simp
next
  case (Suc fuel)
  show ?case
  proof (cases "EPA_iteration geo s c1 c2 col")
    case (Inl e)
    then show ?thesis by simp
  next
    case (Inr r)
    obtain stop s' col' where r: "r = (stop, s', col')" by (cases r)
    show ?thesis
    proof (cases stop)
      case True
      then show ?thesis using Inr r by simp
    next
      case False
      from EPA_iteration_continue[of geo s c1 c2 col s' col'] Inr r False obtain p where
        p: "minkowski p \<in> differences c1 c2" "minkowski p \<notin> minkowski ` set (vertices s)"
          "vertices s' = vertices s @ [p]"
        by auto
      have "differences c1 c2 - minkowski ` set (vertices s')
          = (differences c1 c2 - minkowski ` set (vertices s)) - {minkowski p}"
        using p(3) by auto
      moreover have "minkowski p \<in> differences c1 c2 - minkowski ` set (vertices s)"
        using p(1,2) by simp
      ultimately have "card (differences c1 c2 - minkowski ` set (vertices s'))
          < card (differences c1 c2 - minkowski ` set (vertices s))"
        using finite_differences[of c1 c2]
        by (metis card_Diff1_less finite_Diff)
      with Suc.prems have "card (differences c1 c2 - minkowski ` set (vertices s')) < fuel"
        by simp
      from Suc.IH[OF this, of col'] show ?thesis
        using Inr r False by simp
    qed
  qed
qed

lemma EPA_returns:
  assumes "(length c1 + 1) * (length c2 + 1) < fuel"
  shows "EPA fuel geo s c1 c2 col \<noteq> None"
proof (cases "triangulate geo s")
  case (Inl e)
  then show ?thesis by (simp add: EPA_def)
next
  case (Inr s')
  have "card (differences c1 c2 - minkowski ` set (vertices s')) \<le> card (differences c1 c2)"
    by (intro card_mono finite_differences) auto
  with card_differences[of c1 c2] assms
  have "card (differences c1 c2 - minkowski ` set (vertices s')) < fuel"
    by simp
  from EPA_loop_returns[OF this] Inr show ?thesis
    by (simp add: EPA_def)
qed

lemma tetra_triangulated: "triangulate geo tetraFound = Inr tetraTriangulated"
  by (simp add: triangulate_def tetraFound_def tetraTriangulated_def newSimplex_def padLine_def
      padTriangle_def isCorrectOrder_def isCorrectOrderAt_def isOppositeDirection_def Let_def
      ownPoint_def vec_defs)

lemma tetra_closest:
  "findClosestFace tetraTriangulated =
     Inr \<lparr> faceVertices = [ownPoint (Vec3 5 (- 1) (- 1)), ownPoint (Vec3 (- 1) 2 (- 1)),
                           ownPoint (Vec3 (- 1) (- 1) 2)],
           faceNormal = Some (Vec3 (1 / 3) (2 / 3) (2 / 3)),
           faceDistance = 1 / 3 \<rparr>"
  by (simp add: findClosestFace_def tetraTriangulated_def tetraFound_def newSimplex_def Let_def
      ownPoint_def vec_defs sqrt_values DBL_MAX_def)

lemma tetra_extend:
  "extend tetraTriangulated (ownPoint (Vec3 5 (- 1) (- 1))) = Inr (False, tetraTriangulated)"
  by (simp add: extend_def tetraTriangulated_def tetraFound_def newSimplex_def ownPoint_def)

lemma tetra_iteration:
  "\<exists>collision'. EPA_iteration geo tetraTriangulated tetraHull originHull sampleCollision
     = Inr (True, tetraTriangulated, collision')"
proof -
  have "\<exists>collision'. storeCollision geo
      \<lparr> faceVertices = [ownPoint (Vec3 5 (- 1) (- 1)), ownPoint (Vec3 (- 1) 2 (- 1)),
                           ownPoint (Vec3 (- 1) (- 1) 2)],
           faceNormal = Some (Vec3 (1 / 3) (2 / 3) (2 / 3)),
           faceDistance = 1 / 3 \<rparr>
      (Vec3 (1 / 3) (2 / 3) (2 / 3)) (ownPoint (Vec3 5 (- 1) (- 1)))
      \<bar>dot (minkowski (ownPoint (Vec3 5 (- 1) (- 1)))) (Vec3 (1 / 3) (2 / 3) (2 / 3))\<bar>
      sampleCollision = Inr collision'"
    by (simp add: storeCollision_def sampleCollision_def Let_def)
  then show ?thesis
    by (auto simp add: EPA_iteration_def tetra_closest andThen_def Let_def tetra_supports
        tetra_extend)
qed

lemma tetra_EPA:
  "\<exists>collision'. EPA (Suc n) geo tetraFound tetraHull originHull sampleCollision
     = Some (Inr (tetraTriangulated, collision'))"
proof -
  from tetra_iteration[of geo] obtain collision' where
    "EPA_iteration geo tetraTriangulated tetraHull originHull sampleCollision
     = Inr (True, tetraTriangulated, collision')"
    by blast
  then have "EPA_loop (Suc n) geo tetraTriangulated tetraHull originHull sampleCollision
     = Some (Inr (tetraTriangulated, collision'))"
    by simp
  then show ?thesis
    unfolding EPA_def by (simp add: tetra_triangulated)
qed

lemmas outward_defs = outward_def faceTripleProduct_def oppositeIndex_def triangleNormal_def
  tripleProduct_def

lemma first_template_products:
  "list_all (\<lambda>t. faceTripleProduct vs t = tripleProduct vs)
     [(0, 1, 2), (0, 3, 1), (0, 2, 3), (1, 3, 2)]"
proof -
  let ?p = "\<lambda>i. minkowski (vs ! i)"
  show ?thesis
    using triple_rotations(1)[of "?p 0" "?p 3" "?p 1" "?p 2"]
      triple_rotations(2)[of "?p 0" "?p 2" "?p 3" "?p 1"]
      triple_rotations(3)[of "?p 1" "?p 3" "?p 2" "?p 0"]
    by (simp add: outward_defs)
qed

lemma second_template_products:
  "list_all (\<lambda>t. faceTripleProduct vs t = - tripleProduct vs)
     [(0, 2, 1), (0, 1, 3), (0, 3, 2), (1, 2, 3)]"
proof -
  let ?p = "\<lambda>i. minkowski (vs ! i)"
  show ?thesis
    using triple_reflections(1)[of "?p 0" "?p 2" "?p 1" "?p 3"]
      triple_reflections(2)[of "?p 0" "?p 1" "?p 3" "?p 2"]
      triple_reflections(3)[of "?p 0" "?p 3" "?p 2" "?p 1"]
      triple_reflections(4)[of "?p 1" "?p 2" "?p 3" "?p 0"]
    by (simp add: outward_defs)
qed

lemma triangulate_outward_unless_flat:
  assumes "count s \<in> {2, 3, 4}" and "triangles s = []"
  shows "\<exists>s'. triangulate geo s = Inr s' \<and>
           length (vertices s') = 4 \<and> take (count s) (vertices s') = vertices s \<and>
           length (triangles s') = 4 \<and>
           list_all (\<lambda>t. faceTripleProduct (vertices s') t \<le> 0) (triangles s') \<and>
           (tripleProduct (vertices s') \<noteq> 0 \<longrightarrow> list_all (outward (vertices s')) (triangles s'))"
proof -
  let ?vs = "padTriangle geo (padLine geo (vertices s))"
  have len: "length ?vs = 4" and pre: "take (count s) ?vs = vertices s"
    using assms padded_length[of "vertices s" geo] padded_prefix[of "vertices s" geo]
    by (simp_all add: count_def)
  have size: "\<not> (length (vertices s) < 2 \<or> length (vertices s) > 4)"
    using assms by (auto simp: count_def)
  have order: "isCorrectOrder ?vs 0 1 2 3 \<longleftrightarrow> tripleProduct ?vs \<le> 0"
    by (simp add: isCorrectOrder_def isCorrectOrderAt_def isOppositeDirection_def
        tripleProduct_def triangleNormal_def Let_def)
  show ?thesis
  proof (cases "isCorrectOrder ?vs 0 1 2 3")
    case True
    then have "triangulate geo s = Inr \<lparr> vertices = ?vs,
        triangles = [(0, 1, 2), (0, 3, 1), (0, 2, 3), (1, 3, 2)] \<rparr>"
      using size assms(2) by (simp add: triangulate_def Let_def)
    moreover have "list_all (\<lambda>t. faceTripleProduct ?vs t \<le> 0)
        [(0, 1, 2), (0, 3, 1), (0, 2, 3), (1, 3, 2)]"
      using True order first_template_products[of ?vs] by simp
    moreover have "tripleProduct ?vs \<noteq> 0 \<longrightarrow>
        list_all (outward ?vs) [(0, 1, 2), (0, 3, 1), (0, 2, 3), (1, 3, 2)]"
      using True order first_template_products[of ?vs] by (simp add: outward_def)
    ultimately show ?thesis
      using len pre by simp
  next
    case False
    then have "triangulate geo s = Inr \<lparr> vertices = ?vs,
        triangles = [(0, 2, 1), (0, 1, 3), (0, 3, 2), (1, 2, 3)] \<rparr>"
      using size assms(2) by (simp add: triangulate_def Let_def)
    moreover have "list_all (outward ?vs) [(0, 2, 1), (0, 1, 3), (0, 3, 2), (1, 2, 3)]"
      using False order second_template_products[of ?vs] by (simp add: outward_def)
    then have "list_all (\<lambda>t. faceTripleProduct ?vs t \<le> 0)
          [(0, 2, 1), (0, 1, 3), (0, 3, 2), (1, 2, 3)] \<and>
        list_all (outward ?vs) [(0, 2, 1), (0, 1, 3), (0, 3, 2), (1, 2, 3)]"
      by (simp add: outward_def)
    ultimately show ?thesis
      using len pre by simp
  qed
qed

lemma segment_triangulated:
  "triangulate geo collinearSegment =
     Inr \<lparr> vertices = [ownPoint (Vec3 1 0 0), ownPoint (Vec3 2 0 0), synthesized (Vec3 1 0 0),
                         synthesized (Vec3 (- (2 * EPS geo)) 0 0)],
           triangles = [(0, 1, 2), (0, 3, 1), (0, 2, 3), (1, 3, 2)] \<rparr>"
  by (simp add: triangulate_def collinearSegment_def newSimplex_def padLine_def padTriangle_def
      isCorrectOrder_def isCorrectOrderAt_def isOppositeDirection_def Let_def ownPoint_def
      synthesized_def vec_defs algebra_simps)



















lemma gjkStateAfter_add:
  "gjkStateAfter (m + n) c1 c2 s d =
     (case gjkStateAfter m c1 c2 s d of
        None \<Rightarrow> None
      | Some (s', d') \<Rightarrow> gjkStateAfter n c1 c2 s' d')"
proof (induction m arbitrary: s d)
  case 0
  then show ?case by simp
next
  case (Suc m)
  then show ?case
    by (simp add: Let_def split: sum.splits bool.splits prod.splits)
qed

lemma gjkStateAfter_cycle:
  assumes "gjkStateAfter p c1 c2 s d = Some (s, d)"
  shows "gjkStateAfter (n * p) c1 c2 s d = Some (s, d)"
proof (induction n)
  case 0
  then show ?case by simp
next
  case (Suc n)
  have "gjkStateAfter (Suc n * p) c1 c2 s d = gjkStateAfter (p + n * p) c1 c2 s d"
    by simp
  also have "\<dots> = gjkStateAfter (n * p) c1 c2 s d"
    using assms by (simp only: gjkStateAfter_add option.case prod.case)
  finally show ?case using Suc.IH by simp
qed

lemmas cap_defs = support_def getFurthestPoint_def Let_def DBL_MAX_def capHull_def
  originHull_def ownPoint_def vec_defs

lemma cap_supports:
  "support capHull originHull (Vec3 1 1 1) = ownPoint (Vec3 2 0 1)"
  "support capHull originHull (Vec3 (- 2) 0 (- 1)) = ownPoint (Vec3 0 2 (- 1))"
  "support capHull originHull (Vec3 (- 12) (- 12) 0) = ownPoint (Vec3 1 (- 2) 0)"
  "support capHull originHull (Vec3 (- 36) 144 (- 36)) = ownPoint (Vec3 0 2 (- 1))"
  by (simp_all add: cap_defs)

lemma cap_step1:
  "processSimplex (add (newSimplex [ownPoint (Vec3 2 0 1)]) (ownPoint (Vec3 0 2 (- 1))))
       (Vec3 (- 2) 0 (- 1))
   = Inr (False, newSimplex [ownPoint (Vec3 2 0 1), ownPoint (Vec3 0 2 (- 1))],
          Vec3 (- 12) (- 12) 0)"
  by (simp add: process_defs ownPoint_def Let_def vec_defs)

lemma cap_step2:
  "processSimplex (add (newSimplex [ownPoint (Vec3 2 0 1), ownPoint (Vec3 0 2 (- 1))])
       (ownPoint (Vec3 1 (- 2) 0))) (Vec3 (- 12) (- 12) 0)
   = Inr (False, capSimplex, Vec3 (- 36) 144 (- 36))"
  by (simp add: process_defs ownPoint_def Let_def vec_defs capSimplex_def)

lemma cap_step3:
  "processSimplex (add capSimplex (ownPoint (Vec3 0 2 (- 1)))) (Vec3 (- 36) 144 (- 36))
   = Inr (False, newSimplex [ownPoint (Vec3 2 0 1), ownPoint (Vec3 0 2 (- 1))],
          Vec3 (- 12) (- 12) 0)"
  by (simp add: process_defs ownPoint_def Let_def vec_defs capSimplex_def)

lemma cap_initial:
  "initialSimplex capHull originHull = newSimplex [ownPoint (Vec3 2 0 1)]"
  "initialDirection capHull originHull = Vec3 (- 2) 0 (- 1)"
  by (simp_all add: initialSimplex_def initialDirection_def cap_supports)
    (simp add: ownPoint_def uminus_vec3_def)

lemma cap_state:
  "gjkStateAfter MAX_ITERATIONS capHull originHull (initialSimplex capHull originHull)
     (initialDirection capHull originHull) = Some (capSimplex, Vec3 (- 36) 144 (- 36))"
proof -
  let ?x = "newSimplex [ownPoint (Vec3 2 0 1), ownPoint (Vec3 0 2 (- 1))]"
  have own: "minkowski (ownPoint v) = v" for v
    by (simp add: ownPoint_def)
  have one: "gjkStateAfter (Suc 0) capHull originHull (newSimplex [ownPoint (Vec3 2 0 1)])
      (Vec3 (- 2) 0 (- 1)) = Some (?x, Vec3 (- 12) (- 12) 0)"
    by (simp add: cap_supports cap_step1 own isOppositeDirection_def dot_def Let_def)
  have two: "gjkStateAfter (Suc 0) capHull originHull ?x (Vec3 (- 12) (- 12) 0)
      = Some (capSimplex, Vec3 (- 36) 144 (- 36))"
    by (simp add: cap_supports cap_step2 own isOppositeDirection_def dot_def Let_def)
  have three: "gjkStateAfter (Suc 0) capHull originHull capSimplex (Vec3 (- 36) 144 (- 36))
      = Some (?x, Vec3 (- 12) (- 12) 0)"
    by (simp add: cap_supports cap_step3 own isOppositeDirection_def dot_def Let_def)
  have "gjkStateAfter (Suc 0 + Suc 0) capHull originHull ?x (Vec3 (- 12) (- 12) 0)
      = Some (?x, Vec3 (- 12) (- 12) 0)"
    by (simp only: gjkStateAfter_add two three option.case prod.case)
  from gjkStateAfter_cycle[OF this, of 24]
  have cyc: "gjkStateAfter (24 * (Suc 0 + Suc 0)) capHull originHull ?x (Vec3 (- 12) (- 12) 0)
      = Some (?x, Vec3 (- 12) (- 12) 0)" .
  have m: "MAX_ITERATIONS = Suc 0 + (24 * (Suc 0 + Suc 0) + Suc 0)"
    by (simp add: MAX_ITERATIONS_def)
  show ?thesis
    unfolding m cap_initial
    by (simp only: gjkStateAfter_add one cyc two option.case prod.case)
qed

lemma cap_exhausted: "exhaustedWith capHull originHull capSimplex"
  by (simp add: exhaustedWith_def cap_state)

lemma cap_loop:
  "gjkLoop MAX_ITERATIONS capHull originHull (initialSimplex capHull originHull)
     (initialDirection capHull originHull) = Inr (ToEPA capSimplex)"
  by (simp only: gjkLoop_toEPA cap_state) simp

section \<open>Results\<close>

text \<open>
  C10: on an empty point cloud \<open>getFurthestPoint\<close> returns the zero vector for every
  direction, and \<open>support\<close> of two empty hulls is a support point whose Minkowski
  coordinate is the zero vector; no error is signalled.
\<close>

theorem empty_hull_support_zero:
  "getFurthestPoint [] direction = Vec3 0 0 0 \<and>
   minkowski (support [] [] direction) = Vec3 0 0 0"
  by (simp add: getFurthestPoint_def support_def minus_vec3_def Let_def)

text \<open>
  C8: \<open>triangulate\<close> raises the invalid-size error exactly when the vertex count is below 2
  or above 4, it raises no other error, and for the counts 2, 3 and 4 it returns a simplex.
\<close>

theorem triangulate_raises_iff:
  "(triangulate geo s = Inl InvalidSimplexSize) = (count s < 2 \<or> count s > 4) \<and>
   (\<exists>e. triangulate geo s = Inl e) = (count s < 2 \<or> count s > 4) \<and>
   (count s \<in> {2, 3, 4}) = (\<exists>s'. triangulate geo s = Inr s')"
  by (auto simp: triangulate_def count_def Let_def)

text \<open>
  C3: when the Minkowski coordinate of the point equals that of a vertex of the simplex,
  \<open>extend\<close> returns false and the simplex, vertex list and triangle list, is unchanged.
\<close>

theorem extend_duplicate_unchanged:
  assumes "\<exists>x \<in> set (vertices s). minkowski x = minkowski p"
  shows "extend s p = Inr (False, s)"
  using assms by (simp add: extend_def)

theorem extend_duplicate_unchanged_witness:
  "extend \<lparr> vertices = [synthesized (Vec3 1 0 0), synthesized (Vec3 0 1 0),
                          synthesized (Vec3 0 0 1), synthesized (Vec3 0 0 0)],
             triangles = [(0, 1, 2), (0, 3, 1), (0, 2, 3), (1, 3, 2)] \<rparr>
          \<lparr> minkowski = Vec3 0 1 0, convexHull1Point = Vec3 5 5 5, convexHull2Point = Vec3 5 4 5 \<rparr>
   = Inr (False, \<lparr> vertices = [synthesized (Vec3 1 0 0), synthesized (Vec3 0 1 0),
                          synthesized (Vec3 0 0 1), synthesized (Vec3 0 0 0)],
             triangles = [(0, 1, 2), (0, 3, 1), (0, 2, 3), (1, 3, 2)] \<rparr>)"
  by (rule extend_duplicate_unchanged) (simp add: synthesized_def)

text \<open>
  C9 (amended): \<open>CollisionCompareLess\<close> compares the Euclidean norms of the penetration
  vectors, and a sequence sorted with it is ordered by ascending magnitude, strictly so
  when no two magnitudes are equal. The claim as stated fails for two collisions of equal
  magnitude.
\<close>

theorem collisions_sorted_ascending:
  "CollisionCompareLess lhs rhs = (magnitude lhs < magnitude rhs) \<and>
   (isSortedWith CollisionCompareLess cs \<longrightarrow>
      sorted (map magnitude cs) \<and>
      (distinct (map magnitude cs) \<longrightarrow> sorted_wrt (<) (map magnitude cs)))"
  using isSortedWith_magnitude[of cs] strict_sorted_iff[of "map magnitude cs"]
  by (auto simp: CollisionCompareLess_def magnitude_def norm3_euclidean)

theorem collisions_tie_counterexample:
  "isSortedWith CollisionCompareLess
     [\<lparr> firstObject = None, secondObject = None, unitNormal = Vec3 1 0 0, firstPOC = Vec3 0 0 0,
        secondPOC = Vec3 0 0 0, intersectionVector = Vec3 3 4 0 \<rparr>,
      \<lparr> firstObject = None, secondObject = None, unitNormal = Vec3 0 1 0, firstPOC = Vec3 0 0 0,
        secondPOC = Vec3 0 0 0, intersectionVector = Vec3 4 3 0 \<rparr>] \<and>
   \<not> sorted_wrt (<) (map magnitude
     [\<lparr> firstObject = None, secondObject = None, unitNormal = Vec3 1 0 0, firstPOC = Vec3 0 0 0,
        secondPOC = Vec3 0 0 0, intersectionVector = Vec3 3 4 0 \<rparr>,
      \<lparr> firstObject = None, secondObject = None, unitNormal = Vec3 0 1 0, firstPOC = Vec3 0 0 0,
        secondPOC = Vec3 0 0 0, intersectionVector = Vec3 4 3 0 \<rparr>])"
  by (simp add: CollisionCompareLess_def magnitude_def norm3_euclidean)

theorem collisions_sorted_ascending_witness:
  "isSortedWith CollisionCompareLess
     [\<lparr> firstObject = None, secondObject = None, unitNormal = Vec3 1 0 0, firstPOC = Vec3 0 0 0,
        secondPOC = Vec3 0 0 0, intersectionVector = Vec3 1 0 0 \<rparr>,
      \<lparr> firstObject = None, secondObject = None, unitNormal = Vec3 0 1 0, firstPOC = Vec3 0 0 0,
        secondPOC = Vec3 0 0 0, intersectionVector = Vec3 0 2 0 \<rparr>] \<and>
   sorted_wrt (<) (map magnitude
     [\<lparr> firstObject = None, secondObject = None, unitNormal = Vec3 1 0 0, firstPOC = Vec3 0 0 0,
        secondPOC = Vec3 0 0 0, intersectionVector = Vec3 1 0 0 \<rparr>,
      \<lparr> firstObject = None, secondObject = None, unitNormal = Vec3 0 1 0, firstPOC = Vec3 0 0 0,
        secondPOC = Vec3 0 0 0, intersectionVector = Vec3 0 2 0 \<rparr>])"
proof -
  let ?cs = "[\<lparr> firstObject = None, secondObject = None, unitNormal = Vec3 1 0 0, firstPOC = Vec3 0 0 0,
        secondPOC = Vec3 0 0 0, intersectionVector = Vec3 1 0 0 \<rparr>,
      \<lparr> firstObject = None, secondObject = None, unitNormal = Vec3 0 1 0, firstPOC = Vec3 0 0 0,
        secondPOC = Vec3 0 0 0, intersectionVector = Vec3 0 2 0 \<rparr>]"
  have s: "isSortedWith CollisionCompareLess ?cs"
    by (simp add: CollisionCompareLess_def norm3_euclidean)
  have d: "distinct (map magnitude ?cs)"
    by (simp add: magnitude_def)
  from collisions_sorted_ascending[of _ _ ?cs] s d show ?thesis by blast
qed

text \<open>
  C2 (amended): in each pass of the EPA loop that completes, \<open>extend\<close> is applied to the
  new support point whatever the tolerance test says; the pass stops the loop exactly
  when the test \<open>d - distance < EPA_TOLERANCE\<close> succeeds or \<open>extend\<close> returns false; and the
  simplex after the pass is the one \<open>extend\<close> left: unchanged when the point duplicates a
  vertex, with the point appended otherwise. The claim as stated fails on the sample
  tetrahedron: the tolerance test succeeds, the loop stops, and the simplex has a fifth
  vertex and a rebuilt triangle list.
\<close>

theorem EPA_iteration_extends_always:
  assumes "EPA_iteration geo s convex1 convex2 collision = Inr (stop, s', collision')"
  shows "\<exists>face normal extended.
           findClosestFace s = Inr face \<and> faceNormal face = Some normal \<and>
           extend s (support convex1 convex2 normal) = Inr (extended, s') \<and>
           stop = (\<bar>dot (minkowski (support convex1 convex2 normal)) normal\<bar> - faceDistance face
                     < EPA_TOLERANCE \<or> \<not> extended) \<and>
           extended = (\<not> (\<exists>x \<in> set (vertices s).
                          minkowski x = minkowski (support convex1 convex2 normal))) \<and>
           (if extended then vertices s' = vertices s @ [support convex1 convex2 normal]
            else s' = s) \<and>
           (if stop then \<forall>fuel. EPA_loop (Suc fuel) geo s convex1 convex2 collision
                           = Some (Inr (s', collision'))
            else collision' = collision \<and>
                 (\<forall>fuel. EPA_loop (Suc fuel) geo s convex1 convex2 collision
                           = EPA_loop fuel geo s' convex1 convex2 collision))"
proof -
  from assms obtain face normal extended where
    f: "findClosestFace s = Inr face" "faceNormal face = Some normal"
      and e: "extend s (support convex1 convex2 normal) = Inr (extended, s')"
      and st: "stop = (\<bar>dot (minkowski (support convex1 convex2 normal)) normal\<bar> - faceDistance face
                     < EPA_TOLERANCE \<or> \<not> extended)"
      and c: "\<not> stop \<Longrightarrow> collision' = collision"
    by (auto simp: EPA_iteration_def andThen_def Let_def
        split: sum.splits option.splits prod.splits if_splits)
  from assms have loop: "\<And>fuel. EPA_loop (Suc fuel) geo s convex1 convex2 collision =
      (if stop then Some (Inr (s', collision'))
       else EPA_loop fuel geo s' convex1 convex2 collision')"
    by simp
  show ?thesis
    using f e st c loop extend_result[OF e]
    by (intro exI[of _ face] exI[of _ normal] exI[of _ extended]) auto
qed

theorem EPA_iteration_extends_always_witness:
  "\<forall>geo. \<exists>collision'.
     EPA_iteration geo cornerSimplex cornerHull originHull sampleCollision
       = Inr (True, cornerExtended, collision') \<and>
     extend cornerSimplex cornerProbe = Inr (True, cornerExtended) \<and>
     vertices cornerExtended = vertices cornerSimplex @ [cornerProbe] \<and>
     (\<forall>fuel. \<exists>r. EPA_loop (Suc fuel) geo cornerSimplex cornerHull originHull sampleCollision
                = Some (Inr r))"
proof
  fix geo
  from corner_iteration obtain collision' where
    it: "EPA_iteration geo cornerSimplex cornerHull originHull sampleCollision
      = Inr (True, cornerExtended, collision')"
    by blast
  from EPA_iteration_extends_always[OF it] obtain face normal extended where
    r: "findClosestFace cornerSimplex = Inr face" "faceNormal face = Some normal"
      "extend cornerSimplex (support cornerHull originHull normal) = Inr (extended, cornerExtended)"
      "if extended
       then vertices cornerExtended = vertices cornerSimplex @ [support cornerHull originHull normal]
       else cornerExtended = cornerSimplex"
      "if True then \<forall>fuel. EPA_loop (Suc fuel) geo cornerSimplex cornerHull originHull sampleCollision
                           = Some (Inr (cornerExtended, collision'))
       else collision' = sampleCollision \<and>
                 (\<forall>fuel. EPA_loop (Suc fuel) geo cornerSimplex cornerHull originHull sampleCollision
                           = EPA_loop fuel geo cornerExtended cornerHull originHull sampleCollision)"
    by blast
  from r(1,2) have n: "normal = Vec3 (1 / 3) (2 / 3) (2 / 3)"
    by (auto simp: corner_closest)
  from r(3) have "extended"
    by (simp add: n corner_support corner_extend)
  with r(3,4,5) it
  show "\<exists>collision'.
     EPA_iteration geo cornerSimplex cornerHull originHull sampleCollision
       = Inr (True, cornerExtended, collision') \<and>
     extend cornerSimplex cornerProbe = Inr (True, cornerExtended) \<and>
     vertices cornerExtended = vertices cornerSimplex @ [cornerProbe] \<and>
     (\<forall>fuel. \<exists>r. EPA_loop (Suc fuel) geo cornerSimplex cornerHull originHull sampleCollision
                = Some (Inr r))"
    by (simp add: n corner_support)
qed

theorem EPA_tolerance_stop_counterexample:
  "findClosestFace cornerSimplex =
     Inr \<lparr> faceVertices = [vertices cornerSimplex ! 1, vertices cornerSimplex ! 2,
                             vertices cornerSimplex ! 3],
           faceNormal = Some (Vec3 (1 / 3) (2 / 3) (2 / 3)),
           faceDistance = 1 / 3 \<rparr> \<and>
   support cornerHull originHull (Vec3 (1 / 3) (2 / 3) (2 / 3)) = cornerProbe \<and>
   \<bar>dot (minkowski cornerProbe) (Vec3 (1 / 3) (2 / 3) (2 / 3))\<bar> - 1 / 3 < EPA_TOLERANCE \<and>
   (\<forall>geo. \<exists>collision'.
      EPA_iteration geo cornerSimplex cornerHull originHull sampleCollision
        = Inr (True, cornerExtended, collision')) \<and>
   vertices cornerExtended \<noteq> vertices cornerSimplex \<and>
   triangles cornerExtended \<noteq> triangles cornerSimplex"
proof -
  have "vertices cornerExtended \<noteq> vertices cornerSimplex"
    and "triangles cornerExtended \<noteq> triangles cornerSimplex"
    by (simp_all add: cornerExtended_def cornerSimplex_def)
  then show ?thesis
    using corner_closest corner_support corner_tolerance corner_iteration by blast
qed

text \<open>
  C1: the loop of \<open>intersect\<close> has at most 50 iterations. \<open>intersect\<close> returns false exactly
  when some iteration of the loop is reached whose support point has a non-positive dot
  product with the search direction, and the collision record is then left as it was. In
  every other case the loop is left with a simplex, by convergence of a region routine or
  by exhausting its iterations, and \<open>intersect\<close> is \<open>EPA\<close> on that simplex: it returns true
  with the record \<open>EPA\<close> wrote, an error raised within \<open>EPA\<close> leaves \<open>intersect\<close> as it is, and
  \<open>EPA\<close> comes back within \<open>(|convex1| + 1) (|convex2| + 1)\<close> passes of its loop.
\<close>

theorem intersect_outcomes:
  "MAX_ITERATIONS = 50 \<and>
   ((\<exists>collision'. intersect fuel geo convex1 convex2 collision = Some (Inr (False, collision')))
      = (\<exists>k<MAX_ITERATIONS. rejectsAt k convex1 convex2)) \<and>
   ((intersect fuel geo convex1 convex2 collision = Some (Inr (False, collision)))
      = (\<exists>k<MAX_ITERATIONS. rejectsAt k convex1 convex2)) \<and>
   (\<not> (\<exists>k<MAX_ITERATIONS. rejectsAt k convex1 convex2) \<longrightarrow>
      (\<exists>simplex.
         (exhaustedWith convex1 convex2 simplex \<or>
          (\<exists>k<MAX_ITERATIONS. convergesAt k convex1 convex2 simplex)) \<and>
         intersect fuel geo convex1 convex2 collision =
           (case EPA fuel geo simplex convex1 convex2 collision of
              None \<Rightarrow> None
            | Some (Inl e) \<Rightarrow> Some (Inl e)
            | Some (Inr (simplex', collision')) \<Rightarrow> Some (Inr (True, collision'))) \<and>
         ((length convex1 + 1) * (length convex2 + 1) < fuel \<longrightarrow>
            EPA fuel geo simplex convex1 convex2 collision \<noteq> None)))"
proof -
  let ?loop = "gjkLoop MAX_ITERATIONS convex1 convex2 (initialSimplex convex1 convex2)
      (initialDirection convex1 convex2)"
  have rej: "?loop = Inr NoIntersection \<longleftrightarrow> (\<exists>k<MAX_ITERATIONS. rejectsAt k convex1 convex2)"
    by (simp add: gjkLoop_rejects rejectsAt_def)
  have epa: "?loop = Inr (ToEPA r) \<longleftrightarrow>
      exhaustedWith convex1 convex2 r \<or> (\<exists>k<MAX_ITERATIONS. convergesAt k convex1 convex2 r)" for r
    by (auto simp: gjkLoop_toEPA convergesAt_def exhaustedWith_def split: option.splits)
  from gjkLoop_no_error[OF initial_count, where n = MAX_ITERATIONS and ?c1.0 = convex1
      and ?c2.0 = convex2 and d = "initialDirection convex1 convex2"]
  consider "?loop = Inr NoIntersection" | r where "?loop = Inr (ToEPA r)"
    by blast
  then show ?thesis
  proof cases
    case 1
    then have "intersect fuel geo convex1 convex2 collision = Some (Inr (False, collision))"
      by (simp add: intersect_def)
    with 1 rej show ?thesis by (simp add: MAX_ITERATIONS_def)
  next
    case 2
    then have i: "intersect fuel geo convex1 convex2 collision =
        (case EPA fuel geo r convex1 convex2 collision of
           None \<Rightarrow> None
         | Some (Inl e) \<Rightarrow> Some (Inl e)
         | Some (Inr (simplex', collision')) \<Rightarrow> Some (Inr (True, collision')))"
      by (simp add: intersect_def)
    then have "\<not> (\<exists>collision'. intersect fuel geo convex1 convex2 collision
        = Some (Inr (False, collision')))"
      by (auto split: option.splits sum.splits)
    then have "\<not> (\<exists>collision'. intersect fuel geo convex1 convex2 collision
          = Some (Inr (False, collision'))) \<and>
        intersect fuel geo convex1 convex2 collision \<noteq> Some (Inr (False, collision))"
      by blast
    moreover have "\<not> (\<exists>k<MAX_ITERATIONS. rejectsAt k convex1 convex2)"
      using 2 rej by simp
    moreover have "exhaustedWith convex1 convex2 r \<or>
        (\<exists>k<MAX_ITERATIONS. convergesAt k convex1 convex2 r)"
      using 2 epa by simp
    moreover have "(length convex1 + 1) * (length convex2 + 1) < fuel \<longrightarrow>
        EPA fuel geo r convex1 convex2 collision \<noteq> None"
      using EPA_returns by blast
    moreover have "MAX_ITERATIONS = 50"
      by (simp add: MAX_ITERATIONS_def)
    ultimately show ?thesis using i by blast
  qed
qed

theorem intersect_outcomes_witness:
  "\<forall>geo. \<not> (\<exists>k<MAX_ITERATIONS. rejectsAt k tetraHull originHull) \<and>
     (\<exists>k<MAX_ITERATIONS. convergesAt k tetraHull originHull tetraFound) \<and>
     (length tetraHull + 1) * (length originHull + 1) < 11 \<and>
     (\<exists>collision'. intersect 11 geo tetraHull originHull sampleCollision
        = Some (Inr (True, collision'))) \<and>
     (\<exists>k<MAX_ITERATIONS. rejectsAt k [Vec3 1 0 0] originHull) \<and>
     intersect 11 geo [Vec3 1 0 0] originHull sampleCollision
       = Some (Inr (False, sampleCollision)) \<and>
     \<not> (\<exists>k<MAX_ITERATIONS. rejectsAt k capHull originHull) \<and>
     exhaustedWith capHull originHull capSimplex \<and>
     (length capHull + 1) * (length originHull + 1) < 11 \<and>
     EPA 11 geo capSimplex capHull originHull sampleCollision \<noteq> None \<and>
     intersect 11 geo capHull originHull sampleCollision =
       (case EPA 11 geo capSimplex capHull originHull sampleCollision of
          None \<Rightarrow> None
        | Some (Inl e) \<Rightarrow> Some (Inl e)
        | Some (Inr (simplex', collision')) \<Rightarrow> Some (Inr (True, collision')))"
proof
  fix geo
  have eleven: "11 = Suc 10" by simp
  from tetra_EPA[of 10 geo] obtain c where
    epa: "EPA 11 geo tetraFound tetraHull originHull sampleCollision
      = Some (Inr (tetraTriangulated, c))"
    unfolding eleven by blast
  have run: "intersect 11 geo tetraHull originHull sampleCollision = Some (Inr (True, c))"
    by (simp add: intersect_def tetra_loop epa)
  have fuel: "(length tetraHull + 1) * (length originHull + 1) < 11"
    by (simp add: tetraHull_def originHull_def)
  note outcome = intersect_outcomes[of 11 geo tetraHull originHull sampleCollision]
  from outcome run have no: "\<not> (\<exists>k<MAX_ITERATIONS. rejectsAt k tetraHull originHull)"
    by auto
  with outcome obtain simplex where
    s: "exhaustedWith tetraHull originHull simplex \<or>
        (\<exists>k<MAX_ITERATIONS. convergesAt k tetraHull originHull simplex)"
    by blast
  have "gjkLoop MAX_ITERATIONS tetraHull originHull (initialSimplex tetraHull originHull)
     (initialDirection tetraHull originHull) = Inr (ToEPA simplex)"
    using s
    by (auto simp: gjkLoop_toEPA convergesAt_def exhaustedWith_def split: option.splits)
  then have "simplex = tetraFound"
    by (simp add: tetra_loop)
  moreover have "\<not> exhaustedWith tetraHull originHull tetraFound"
  proof -
    have own: "minkowski (ownPoint v) = v" for v
      by (simp add: ownPoint_def)
    have "gjkStateAfter (Suc (Suc (Suc n))) tetraHull originHull
        (newSimplex [ownPoint (Vec3 5 (- 1) (- 1))]) (Vec3 (- 5) 1 1) = None" for n
      by (simp add: tetra_supports tetra_step1 tetra_step2 tetra_step3 own
          isOppositeDirection_def dot_def Let_def)
    from this[of 47] show ?thesis
      by (simp add: exhaustedWith_def MAX_ITERATIONS_def initialSimplex_def initialDirection_def
          tetra_supports own uminus_vec3_def)
  qed
  ultimately have conv: "\<exists>k<MAX_ITERATIONS. convergesAt k tetraHull originHull tetraFound"
    using s by blast
  have "rejectsAt 0 [Vec3 1 0 0] originHull"
    by (simp add: rejectsAt_def rejectsFrom_def initialSimplex_def initialDirection_def
        support_def getFurthestPoint_def originHull_def DBL_MAX_def Let_def dot_def
        minus_vec3_def uminus_vec3_def)
  then have rej: "\<exists>k<MAX_ITERATIONS. rejectsAt k [Vec3 1 0 0] originHull"
    by (intro exI[of _ 0]) (simp add: MAX_ITERATIONS_def)
  with intersect_outcomes[of 11 geo "[Vec3 1 0 0]" originHull sampleCollision]
  have "intersect 11 geo [Vec3 1 0 0] originHull sampleCollision
      = Some (Inr (False, sampleCollision))"
    by blast
  with no conv fuel run rej
  have first: "\<not> (\<exists>k<MAX_ITERATIONS. rejectsAt k tetraHull originHull) \<and>
     (\<exists>k<MAX_ITERATIONS. convergesAt k tetraHull originHull tetraFound) \<and>
     (length tetraHull + 1) * (length originHull + 1) < 11 \<and>
     (\<exists>collision'. intersect 11 geo tetraHull originHull sampleCollision
        = Some (Inr (True, collision'))) \<and>
     (\<exists>k<MAX_ITERATIONS. rejectsAt k [Vec3 1 0 0] originHull) \<and>
     intersect 11 geo [Vec3 1 0 0] originHull sampleCollision
       = Some (Inr (False, sampleCollision))"
    by blast
  have capNo: "\<not> (\<exists>k<MAX_ITERATIONS. rejectsAt k capHull originHull)"
    using cap_loop gjkLoop_rejects[of MAX_ITERATIONS capHull originHull
        "initialSimplex capHull originHull" "initialDirection capHull originHull"]
    by (simp add: rejectsAt_def)
  have capFuel: "(length capHull + 1) * (length originHull + 1) < 11"
    by (simp add: capHull_def originHull_def)
  from intersect_outcomes[of 11 geo capHull originHull sampleCollision] capNo capFuel
  obtain simplex where
    c: "exhaustedWith capHull originHull simplex \<or>
        (\<exists>k<MAX_ITERATIONS. convergesAt k capHull originHull simplex)"
      "intersect 11 geo capHull originHull sampleCollision =
        (case EPA 11 geo simplex capHull originHull sampleCollision of
           None \<Rightarrow> None
         | Some (Inl e) \<Rightarrow> Some (Inl e)
         | Some (Inr (simplex', collision')) \<Rightarrow> Some (Inr (True, collision')))"
      "EPA 11 geo simplex capHull originHull sampleCollision \<noteq> None"
    by blast
  have "gjkLoop MAX_ITERATIONS capHull originHull (initialSimplex capHull originHull)
     (initialDirection capHull originHull) = Inr (ToEPA simplex)"
    using c(1)
    by (auto simp: gjkLoop_toEPA convergesAt_def exhaustedWith_def split: option.splits)
  then have "simplex = capSimplex"
    by (simp add: cap_loop)
  with c(2,3) cap_exhausted capNo capFuel first
  show "\<not> (\<exists>k<MAX_ITERATIONS. rejectsAt k tetraHull originHull) \<and>
     (\<exists>k<MAX_ITERATIONS. convergesAt k tetraHull originHull tetraFound) \<and>
     (length tetraHull + 1) * (length originHull + 1) < 11 \<and>
     (\<exists>collision'. intersect 11 geo tetraHull originHull sampleCollision
        = Some (Inr (True, collision'))) \<and>
     (\<exists>k<MAX_ITERATIONS. rejectsAt k [Vec3 1 0 0] originHull) \<and>
     intersect 11 geo [Vec3 1 0 0] originHull sampleCollision
       = Some (Inr (False, sampleCollision)) \<and>
     \<not> (\<exists>k<MAX_ITERATIONS. rejectsAt k capHull originHull) \<and>
     exhaustedWith capHull originHull capSimplex \<and>
     (length capHull + 1) * (length originHull + 1) < 11 \<and>
     EPA 11 geo capSimplex capHull originHull sampleCollision \<noteq> None \<and>
     intersect 11 geo capHull originHull sampleCollision =
       (case EPA 11 geo capSimplex capHull originHull sampleCollision of
          None \<Rightarrow> None
        | Some (Inl e) \<Rightarrow> Some (Inl e)
        | Some (Inr (simplex', collision')) \<Rightarrow> Some (Inr (True, collision')))"
    by simp
qed


text \<open>
  C5 (defect of the code): for the segment from \<open>(1, 0, 0)\<close> to \<open>(2, 0, 0)\<close>, which lies on a
  line through the origin, \<open>triangulate\<close> returns four vertices and four triangles, but the
  two synthesized points do not make a tetrahedron: the third vertex repeats the first, all
  four vertices lie on the \<open>x\<close> axis, the normal of each of the four triangles is the zero
  vector, which points nowhere, and its scalar product with the vector to the opposite
  vertex is zero, which has no sign.
\<close>

theorem triangulate_flat_padding:
  "\<forall>geo. \<exists>s'. triangulate geo collinearSegment = Inr s' \<and>
     length (vertices s') = 4 \<and> length (triangles s') = 4 \<and>
     minkowski (vertices s' ! 2) = minkowski (vertices s' ! 0) \<and>
     list_all (\<lambda>v. vy (minkowski v) = 0 \<and> vz (minkowski v) = 0) (vertices s') \<and>
     list_all (\<lambda>t. triangleNormal (vertices s') t = Vec3 0 0 0) (triangles s') \<and>
     list_all (\<lambda>t. faceTripleProduct (vertices s') t = 0) (triangles s')"
  by (simp add: segment_triangulated faceTripleProduct_def oppositeIndex_def triangleNormal_def
      ownPoint_def synthesized_def vec_defs)

text \<open>
  C6 (defect of the code): the simplex that \<open>triangulate\<close> returns for the segment from
  \<open>(1, 0, 0)\<close> to \<open>(2, 0, 0)\<close> has four triangles, and \<open>findClosestFace\<close> returns for it the
  face it started from, without vertices, with an unset normal and with the distance
  \<open>DBL_MAX\<close>, which is the face of none of the triangles; \<open>EPA\<close> on that segment then reads
  the unset face in its first pass.
\<close>

theorem findClosestFace_faceless:
  "\<forall>geo. \<exists>s'. triangulate geo collinearSegment = Inr s' \<and>
     length (triangles s') = 4 \<and>
     findClosestFace s' = Inr \<lparr> faceVertices = [], faceNormal = None, faceDistance = DBL_MAX \<rparr> \<and>
     (\<forall>fuel convex1 convex2 collision.
        EPA (Suc fuel) geo collinearSegment convex1 convex2 collision
          = Some (Inl UndefinedBehaviour))"
proof
  fix geo :: Geometry
  let ?s = "\<lparr> vertices = [ownPoint (Vec3 1 0 0), ownPoint (Vec3 2 0 0), synthesized (Vec3 1 0 0),
                         synthesized (Vec3 (- (2 * EPS geo)) 0 0)],
           triangles = [(0, 1, 2), (0, 3, 1), (0, 2, 3), (1, 3, 2)] \<rparr>"
  have f: "findClosestFace ?s
      = Inr \<lparr> faceVertices = [], faceNormal = None, faceDistance = DBL_MAX \<rparr>"
    by (simp add: findClosestFace_def Let_def ownPoint_def synthesized_def vec_defs)
  then have "EPA_iteration geo ?s convex1 convex2 collision = Inl UndefinedBehaviour"
    for convex1 convex2 collision
    by (simp add: EPA_iteration_def andThen_def)
  then have "EPA (Suc fuel) geo collinearSegment convex1 convex2 collision
      = Some (Inl UndefinedBehaviour)" for fuel convex1 convex2 collision
    by (simp add: EPA_def segment_triangulated)
  with f show "\<exists>s'. triangulate geo collinearSegment = Inr s' \<and>
     length (triangles s') = 4 \<and>
     findClosestFace s' = Inr \<lparr> faceVertices = [], faceNormal = None, faceDistance = DBL_MAX \<rparr> \<and>
     (\<forall>fuel convex1 convex2 collision.
        EPA (Suc fuel) geo collinearSegment convex1 convex2 collision
          = Some (Inl UndefinedBehaviour))"
    by (simp add: segment_triangulated)
qed

text \<open>
  C7 (defect of the code): for the single-point hull \<open>[(- DBL_MAX, 0, 0)]\<close> and the direction
  \<open>(1, 0, 0)\<close> the dot product equals the value \<open>- DBL_MAX\<close> from which the scan starts, the
  test \<open>dot > max\<close> fails, and \<open>getFurthestPoint\<close> returns the zero vector, which is not a
  point of the hull; \<open>support\<close> of that hull and the hull of the origin is built from the
  zero vector and not from the difference of the two points.
\<close>

theorem getFurthestPoint_sentinel_failure:
  "getFurthestPoint [Vec3 (- DBL_MAX) 0 0] (Vec3 1 0 0) = Vec3 0 0 0 \<and>
   getFurthestPoint [Vec3 (- DBL_MAX) 0 0] (Vec3 1 0 0) \<noteq> Vec3 (- DBL_MAX) 0 0 \<and>
   support [Vec3 (- DBL_MAX) 0 0] [Vec3 0 0 0] (Vec3 1 0 0)
     = \<lparr> minkowski = Vec3 0 0 0, convexHull1Point = Vec3 0 0 0, convexHull2Point = Vec3 0 0 0 \<rparr> \<and>
   minkowski (support [Vec3 (- DBL_MAX) 0 0] [Vec3 0 0 0] (Vec3 1 0 0))
     \<noteq> Vec3 (- DBL_MAX) 0 0 - Vec3 0 0 0"
  by (simp add: support_def getFurthestPoint_def Let_def dot_def DBL_MAX_def minus_vec3_def
      uminus_vec3_def)

end
